theory Spec2Isabelle
  imports Main "HOL-Library.Word"
begin

section \<open>Post-processing of the header chain: CHT and BloomTrie indexer backends\<close>

text \<open>
  A shallow embedding of \<^verbatim>\<open>light/postprocess.go\<close>: the root key-value codec
  (\<^verbatim>\<open>GetChtRoot\<close>, \<^verbatim>\<open>StoreChtRoot\<close>, \<^verbatim>\<open>GetBloomTrieRoot\<close>,
  \<^verbatim>\<open>StoreBloomTrieRoot\<close>) and the two chain indexer backends with their
  \<^verbatim>\<open>Reset\<close>, \<^verbatim>\<open>Process\<close> and \<^verbatim>\<open>Commit\<close> methods.
  Mutation of the receiver is explicit state passing; a Go \<^verbatim>\<open>panic\<close> (also the
  runtime's own: nil dereference, index out of range, division by zero) and a returned
  \<^verbatim>\<open>error\<close> are values of the result.
\<close>

subsection \<open>Bytes, hashes and big-endian encodings\<close>

type_synonym byte = "8 word"
type_synonym bytes = "byte list"
type_synonym uint64 = "64 word"

text \<open>
  Modelled from the spec: package \<^verbatim>\<open>common\<close> (the type \<^verbatim>\<open>Hash\<close>, its method
  \<^verbatim>\<open>Bytes\<close> and \<^verbatim>\<open>BytesToHash\<close>) is not part of the sources at hand. The spec
  calls a hash a "32-byte hash" and asks that a missing key yield "the zero/empty hash".
  A hash is the 256-bit word whose big-endian bytes are the 32 bytes of the Go array:
  \<open>Hash_Bytes\<close> gives these 32 bytes, and \<open>BytesToHash\<close> reads a byte slice
  big-endian into 256 bits, so a shorter slice is padded with zero bytes on the left, a
  longer one keeps its last 32 bytes, and the empty (nil) slice gives the zero hash.
\<close>

type_synonym Hash = "256 word"

text \<open>The \<open>n\<close> low-order bytes of \<open>v\<close>, most significant byte first.\<close>

fun be_bytes :: "nat \<Rightarrow> nat \<Rightarrow> bytes" where
  "be_bytes 0 v = []"
| "be_bytes (Suc n) v = be_bytes n (v div 256) @ [of_nat (v mod 256)]"

definition be_val :: "bytes \<Rightarrow> nat" where
  "be_val bs = foldl (\<lambda>a b. a * 256 + unat b) 0 bs"

text \<open>\<^verbatim>\<open>binary.BigEndian.PutUint64\<close> and \<^verbatim>\<open>binary.BigEndian.PutUint16\<close> into a fresh
  array of 8, respectively 2, bytes.\<close>

definition PutUint64 :: "uint64 \<Rightarrow> bytes" where
  "PutUint64 v = be_bytes 8 (unat v)"

definition PutUint16 :: "16 word \<Rightarrow> bytes" where
  "PutUint16 v = be_bytes 2 (unat v)"

definition Hash_Bytes :: "Hash \<Rightarrow> bytes" where
  "Hash_Bytes h = be_bytes 32 (unat h)"

definition BytesToHash :: "bytes \<Rightarrow> Hash" where
  "BytesToHash b = of_nat (be_val b)"

text \<open>The bytes of a Go string literal, as \<^verbatim>\<open>[]byte("...")\<close> gives them.\<close>

definition str_bytes :: "string \<Rightarrow> bytes" where
  "str_bytes s = map (\<lambda>c. of_nat (of_char c)) s"

subsection \<open>The key-value database\<close>

text \<open>
  Modelled from the spec: the interface \<^verbatim>\<open>mandb.Database\<close> (the "raw key-value
  storage layer") is not part of the sources at hand. A database is a finite map from keys
  to values; \<^verbatim>\<open>Get\<close> returns the value and no error, or nil and an error for a
  missing key; \<^verbatim>\<open>Put\<close> stores the value under the key.
\<close>

type_synonym Database = "bytes \<rightharpoonup> bytes"

type_synonym error = string

definition db_Get :: "Database \<Rightarrow> bytes \<Rightarrow> bytes \<times> error option" where
  "db_Get db k = (case db k of None \<Rightarrow> ([], Some ''not found'') | Some v \<Rightarrow> (v, None))"

definition db_Put :: "Database \<Rightarrow> bytes \<Rightarrow> bytes \<Rightarrow> Database" where
  "db_Put db k v = db(k \<mapsto> v)"

subsection \<open>Root records\<close>

definition chtPrefix :: bytes where
  "chtPrefix = str_bytes ''chtRoot-''"

definition bloomTriePrefix :: bytes where
  "bloomTriePrefix = str_bytes ''bltRoot-''"

text \<open>The key both functions of a codec build:
  \<^verbatim>\<open>append(append(prefix, encNumber[:]...), sectionHead.Bytes()...)\<close>.\<close>

definition rootKey :: "bytes \<Rightarrow> uint64 \<Rightarrow> Hash \<Rightarrow> bytes" where
  "rootKey prefix sectionIdx sectionHead = (prefix @ PutUint64 sectionIdx) @ Hash_Bytes sectionHead"

definition GetChtRoot :: "Database \<Rightarrow> uint64 \<Rightarrow> Hash \<Rightarrow> Hash" where
  "GetChtRoot db sectionIdx sectionHead =
     (let (data, _) = db_Get db (rootKey chtPrefix sectionIdx sectionHead)
      in BytesToHash data)"

definition StoreChtRoot :: "Database \<Rightarrow> uint64 \<Rightarrow> Hash \<Rightarrow> Hash \<Rightarrow> Database" where
  "StoreChtRoot db sectionIdx sectionHead root =
     db_Put db (rootKey chtPrefix sectionIdx sectionHead) (Hash_Bytes root)"

definition GetBloomTrieRoot :: "Database \<Rightarrow> uint64 \<Rightarrow> Hash \<Rightarrow> Hash" where
  "GetBloomTrieRoot db sectionIdx sectionHead =
     (let (data, _) = db_Get db (rootKey bloomTriePrefix sectionIdx sectionHead)
      in BytesToHash data)"

definition StoreBloomTrieRoot :: "Database \<Rightarrow> uint64 \<Rightarrow> Hash \<Rightarrow> Hash \<Rightarrow> Database" where
  "StoreBloomTrieRoot db sectionIdx sectionHead root =
     db_Put db (rootKey bloomTriePrefix sectionIdx sectionHead) (Hash_Bytes root)"

subsection \<open>The trie and the collaborators outside this file\<close>

text \<open>
  Modelled from the spec: package \<^verbatim>\<open>trie\<close> ("insert/delete/commit of a persistent
  key-value trie") is not part of the sources at hand. A trie is modelled by its leaves, a
  finite map from key to value: \<^verbatim>\<open>Update\<close> inserts a leaf, \<^verbatim>\<open>Delete\<close> removes it.
\<close>

type_synonym Trie = "bytes \<rightharpoonup> bytes"

definition trie_Update :: "Trie \<Rightarrow> bytes \<Rightarrow> bytes \<Rightarrow> Trie" where
  "trie_Update t key val = t(key \<mapsto> val)"

definition trie_Delete :: "Trie \<Rightarrow> bytes \<Rightarrow> Trie" where
  "trie_Delete t key = t(key := None)"

text \<open>\<^verbatim>\<open>ChtNode\<close>: the structure stored in the Canonical Hash Trie; \<open>Td\<close> is a
  \<^verbatim>\<open>*big.Int\<close>.\<close>

record ChtNode =
  Hash :: Hash
  Td :: int

text \<open>
  Modelled from the spec: package \<^verbatim>\<open>rlp\<close> (\<^verbatim>\<open>rlp.EncodeToBytes\<close>) is not part of the
  sources at hand. The spec describes the encoding of a \<^verbatim>\<open>ChtNode\<close> as "a canonical
  deterministic binary format (field order: hash then difficulty, fixed-width hash,
  variable-width big-endian integer with explicit length prefix)" and the difficulty as an
  "arbitrary-precision unsigned integer". The encoding is the 32 bytes of the hash, then
  the difficulty: one byte that holds the number of its bytes, then these bytes, big-endian
  without a leading zero byte (\<open>be_min\<close>; none for zero). A negative \<open>Td\<close> is outside the
  format: the encoder returns an error.
\<close>

function be_min :: "nat \<Rightarrow> bytes" where
  "be_min n = (if n = 0 then [] else be_min (n div 256) @ [of_nat (n mod 256)])"
  by pat_completeness auto
termination
  by (relation "measure id") auto

declare be_min.simps [simp del]

definition EncodeToBytes :: "ChtNode \<Rightarrow> error + bytes" where
  "EncodeToBytes node =
     (if Td node < 0 then Inl ''negative integer''
      else Inr (Hash_Bytes (Hash node)
                @ of_nat (length (be_min (nat (Td node)))) # be_min (nat (Td node))))"

text \<open>
  Modelled from the spec: \<^verbatim>\<open>types.Header\<close> is not part of the sources at hand; the
  backends read a header's hash (\<^verbatim>\<open>header.Hash()\<close>) and its block number
  (\<^verbatim>\<open>header.Number\<close>, a non-negative \<^verbatim>\<open>*big.Int\<close>) only.
\<close>

record Header =
  HeaderHash :: Hash
  Number :: nat

text \<open>\<^verbatim>\<open>header.Number.Uint64()\<close>: the low 64 bits of the block number.\<close>

definition Uint64 :: "nat \<Rightarrow> uint64" where
  "Uint64 n = of_nat n"

text \<open>
  The functions this file calls in packages that are not part of the sources at hand are
  parameters of the model, gathered in one record. \<open>'tdb\<close> is the state of the trie node
  database (\<^verbatim>\<open>*trie.Database\<close>, kept in a table of its own, apart from the root
  records).
  \<^item> \<open>trie_New root triedb\<close> is \<^verbatim>\<open>trie.New(root, triedb)\<close>: the trie at that root, or an
    error;
  \<^item> \<open>trie_Commit t triedb\<close> is \<^verbatim>\<open>t.Commit(nil)\<close>: the root hash or an error, and the
    node database with the trie's nodes inserted;
  \<^item> \<open>triedb_Commit triedb root\<close> is \<^verbatim>\<open>triedb.Commit(root, false)\<close>: the nodes under
    \<open>root\<close> written to persistent storage, and the error of that write, if any;
  \<^item> \<open>ReadTd db hash number\<close> is \<^verbatim>\<open>rawdb.ReadTd\<close>: the total difficulty, or nil;
  \<^item> \<open>ReadBloomBits db bit section head\<close> is \<^verbatim>\<open>rawdb.ReadBloomBits\<close>;
  \<^item> \<open>DecompressBytes data target\<close> and \<open>CompressBytes data\<close> are those of
    \<^verbatim>\<open>bitutil\<close>.
\<close>

record 'tdb externals =
  trie_New :: "Hash \<Rightarrow> 'tdb \<Rightarrow> error + Trie"
  trie_Commit :: "Trie \<Rightarrow> 'tdb \<Rightarrow> (error + Hash) \<times> 'tdb"
  triedb_Commit :: "'tdb \<Rightarrow> Hash \<Rightarrow> error option \<times> 'tdb"
  ReadTd :: "Database \<Rightarrow> Hash \<Rightarrow> uint64 \<Rightarrow> int option"
  ReadBloomBits :: "Database \<Rightarrow> nat \<Rightarrow> uint64 \<Rightarrow> Hash \<Rightarrow> error + bytes"
  DecompressBytes :: "bytes \<Rightarrow> int \<Rightarrow> error + bytes"
  CompressBytes :: "bytes \<Rightarrow> bytes"

text \<open>How a method ends: it panics, it returns an error, or it returns normally (for
  \<^verbatim>\<open>Reset\<close> and \<^verbatim>\<open>Commit\<close>: with a nil error).\<close>

datatype status = Panic | Failed error | Ok

subsection \<open>The CHT indexer backend\<close>

record 'tdb ChtIndexerBackend =
  c_diskdb :: Database
  c_triedb :: 'tdb
  c_section :: uint64
  c_sectionSize :: uint64
  c_lastHash :: Hash
  c_trie :: "Trie option"

text \<open>\<^verbatim>\<open>Reset\<close> assigns \<^verbatim>\<open>c.trie\<close> (nil when \<^verbatim>\<open>trie.New\<close> fails) and
  \<^verbatim>\<open>c.section\<close>, then returns the error of \<^verbatim>\<open>trie.New\<close>.\<close>

definition ChtReset ::
  "'tdb externals \<Rightarrow> 'tdb ChtIndexerBackend \<Rightarrow> uint64 \<Rightarrow> Hash \<Rightarrow> status \<times> 'tdb ChtIndexerBackend" where
  "ChtReset ext c section lastSectionHead =
     (let root = (if section > 0 then GetChtRoot (c_diskdb c) (section - 1) lastSectionHead else 0)
      in case trie_New ext root (c_triedb c) of
           Inl err \<Rightarrow> (Failed err, c\<lparr>c_trie := None, c_section := section\<rparr>)
         | Inr t \<Rightarrow> (Ok, c\<lparr>c_trie := Some t, c_section := section\<rparr>))"

text \<open>\<^verbatim>\<open>Process\<close> sets \<^verbatim>\<open>c.lastHash\<close> first, panics when the total difficulty is
  nil, and else updates the trie (a nil \<^verbatim>\<open>c.trie\<close> is a nil dereference there). The
  error of \<^verbatim>\<open>rlp.EncodeToBytes\<close> is discarded (\<^verbatim>\<open>data, _ := ...\<close>): \<^verbatim>\<open>data\<close> is nil
  then.\<close>

definition ChtProcess ::
  "'tdb externals \<Rightarrow> 'tdb ChtIndexerBackend \<Rightarrow> Header \<Rightarrow> status \<times> 'tdb ChtIndexerBackend" where
  "ChtProcess ext c header =
     (let hash = HeaderHash header;
          num = Uint64 (Number header);
          c1 = c\<lparr>c_lastHash := hash\<rparr>
      in case ReadTd ext (c_diskdb c1) hash num of
           None \<Rightarrow> (Panic, c1)
         | Some td \<Rightarrow>
             (let encNumber = PutUint64 num;
                  data = (case EncodeToBytes \<lparr>Hash = hash, Td = td\<rparr> of
                            Inl err \<Rightarrow> []
                          | Inr enc \<Rightarrow> enc)
              in case c_trie c1 of
                   None \<Rightarrow> (Panic, c1)
                 | Some t \<Rightarrow> (Ok, c1\<lparr>c_trie := Some (trie_Update t encNumber data)\<rparr>)))"

text \<open>\<^verbatim>\<open>Commit\<close>: the result of \<^verbatim>\<open>c.triedb.Commit(root, false)\<close> is not looked at; the
  call to \<^verbatim>\<open>log.Info\<close> has no effect on the state and is left out.\<close>

definition ChtCommit ::
  "'tdb externals \<Rightarrow> 'tdb ChtIndexerBackend \<Rightarrow> status \<times> 'tdb ChtIndexerBackend" where
  "ChtCommit ext c =
     (case c_trie c of
        None \<Rightarrow> (Panic, c)
      | Some t \<Rightarrow>
          (case trie_Commit ext t (c_triedb c) of
             (Inl err, tdb) \<Rightarrow> (Failed err, c\<lparr>c_triedb := tdb\<rparr>)
           | (Inr root, tdb) \<Rightarrow>
               (let (_, tdb') = triedb_Commit ext tdb root
                in (Ok, c\<lparr>c_triedb := tdb',
                          c_diskdb := StoreChtRoot (c_diskdb c) (c_section c) (c_lastHash c) root\<rparr>))))"

subsection \<open>The BloomTrie indexer backend\<close>

definition BloomTrieFrequency :: uint64 where
  "BloomTrieFrequency = 32768"

text \<open>Modelled from the spec: the constant \<^verbatim>\<open>types.BloomBitLength\<close> is not part of the
  sources at hand; the spec gives "2048 bits per header in the upstream bloom filter".\<close>

definition BloomBitLength :: nat where
  "BloomBitLength = 2048"

record 'tdb BloomTrieIndexerBackend =
  b_diskdb :: Database
  b_triedb :: 'tdb
  b_section :: uint64
  b_parentSectionSize :: uint64
  b_bloomTrieRatio :: uint64
  b_trie :: "Trie option"
  b_sectionHeads :: "Hash list"

definition BloomReset ::
  "'tdb externals \<Rightarrow> 'tdb BloomTrieIndexerBackend \<Rightarrow> uint64 \<Rightarrow> Hash
     \<Rightarrow> status \<times> 'tdb BloomTrieIndexerBackend" where
  "BloomReset ext b section lastSectionHead =
     (let root = (if section > 0 then GetBloomTrieRoot (b_diskdb b) (section - 1) lastSectionHead else 0)
      in case trie_New ext root (b_triedb b) of
           Inl err \<Rightarrow> (Failed err, b\<lparr>b_trie := None, b_section := section\<rparr>)
         | Inr t \<Rightarrow> (Ok, b\<lparr>b_trie := Some t, b_section := section\<rparr>))"

text \<open>\<^verbatim>\<open>Process\<close>: unsigned 64-bit arithmetic; the remainder by a zero
  \<^verbatim>\<open>parentSectionSize\<close> and an index beyond \<^verbatim>\<open>sectionHeads\<close> are run-time panics.\<close>

definition BloomProcess ::
  "'tdb externals \<Rightarrow> 'tdb BloomTrieIndexerBackend \<Rightarrow> Header \<Rightarrow> status \<times> 'tdb BloomTrieIndexerBackend" where
  "BloomProcess ext b header =
     (let num = Uint64 (Number header) - b_section b * BloomTrieFrequency
      in if b_parentSectionSize b = 0 then (Panic, b)
         else if (num + 1) mod b_parentSectionSize b = 0 then
           (let idx = unat (num div b_parentSectionSize b)
            in if idx < length (b_sectionHeads b)
               then (Ok, b\<lparr>b_sectionHeads := (b_sectionHeads b)[idx := HeaderHash header]\<rparr>)
               else (Panic, b))
         else (Ok, b))"

text \<open>The inner loop of \<^verbatim>\<open>Commit\<close> over \<^verbatim>\<open>j\<close>, for bit index \<open>i\<close>: \<open>js\<close> are the
  values of \<^verbatim>\<open>j\<close> still to come, \<open>decomp\<close> is the slice built so far.\<close>

fun readSegments ::
  "'tdb externals \<Rightarrow> 'tdb BloomTrieIndexerBackend \<Rightarrow> nat \<Rightarrow> nat list \<Rightarrow> bytes \<Rightarrow> status \<times> bytes" where
  "readSegments ext b i [] decomp = (Ok, decomp)"
| "readSegments ext b i (j # js) decomp =
     (if j < length (b_sectionHeads b) then
        (case ReadBloomBits ext (b_diskdb b) i (b_section b * b_bloomTrieRatio b + of_nat j)
                (b_sectionHeads b ! j) of
           Inl err \<Rightarrow> (Failed err, decomp)
         | Inr data \<Rightarrow>
             (case DecompressBytes ext data (sint (b_parentSectionSize b div 8)) of
                Inl err2 \<Rightarrow> (Failed err2, decomp)
              | Inr decompData \<Rightarrow> readSegments ext b i js (decomp @ decompData)))
      else (Panic, decomp))"

text \<open>The key of a leaf: \<^verbatim>\<open>PutUint16(encKey[0:2], uint16(i))\<close> and
  \<^verbatim>\<open>PutUint64(encKey[2:10], b.section)\<close>.\<close>

definition bloomKey :: "nat \<Rightarrow> uint64 \<Rightarrow> bytes" where
  "bloomKey i section = PutUint16 (of_nat i) @ PutUint64 section"

text \<open>The outer loop of \<^verbatim>\<open>Commit\<close> over \<^verbatim>\<open>i\<close>: \<open>is\<close> are the values of \<^verbatim>\<open>i\<close> still
  to come, \<open>t\<close> is \<^verbatim>\<open>b.trie\<close>, updated in place by the Go code.\<close>

fun commitBits ::
  "'tdb externals \<Rightarrow> 'tdb BloomTrieIndexerBackend \<Rightarrow> nat list \<Rightarrow> Trie option \<Rightarrow> status \<times> Trie option" where
  "commitBits ext b [] t = (Ok, t)"
| "commitBits ext b (i # is) t =
     (let encKey = bloomKey i (b_section b)
      in case readSegments ext b i [0..<unat (b_bloomTrieRatio b)] [] of
           (Ok, decomp) \<Rightarrow>
             (let comp = CompressBytes ext decomp
              in case t of
                   None \<Rightarrow> (Panic, None)
                 | Some tr \<Rightarrow>
                     commitBits ext b is
                       (Some (if length comp > 0 then trie_Update tr encKey comp
                              else trie_Delete tr encKey)))
         | (Panic, _) \<Rightarrow> (Panic, t)
         | (Failed err, _) \<Rightarrow> (Failed err, t))"

definition BloomCommit ::
  "'tdb externals \<Rightarrow> 'tdb BloomTrieIndexerBackend \<Rightarrow> status \<times> 'tdb BloomTrieIndexerBackend" where
  "BloomCommit ext b =
     (case commitBits ext b [0..<BloomBitLength] (b_trie b) of
        (Ok, None) \<Rightarrow> (Panic, b)
      | (Ok, Some tr) \<Rightarrow>
          (case trie_Commit ext tr (b_triedb b) of
             (Inl err, tdb) \<Rightarrow> (Failed err, b\<lparr>b_trie := Some tr, b_triedb := tdb\<rparr>)
           | (Inr root, tdb) \<Rightarrow>
               (let (_, tdb') = triedb_Commit ext tdb root;
                    b1 = b\<lparr>b_trie := Some tr, b_triedb := tdb'\<rparr>;
                    last = unat (b_bloomTrieRatio b - 1)
                in if last < length (b_sectionHeads b)
                   then (Ok, b1\<lparr>b_diskdb := StoreBloomTrieRoot (b_diskdb b) (b_section b)
                                                (b_sectionHeads b ! last) root\<rparr>)
                   else (Panic, b1)))
      | (Panic, t) \<Rightarrow> (Panic, b\<lparr>b_trie := t\<rparr>)
      | (Failed err, t) \<Rightarrow> (Failed err, b\<lparr>b_trie := t\<rparr>))"

subsection \<open>The driver's call sequence\<close>

text \<open>
  Modelled from the spec: the chain indexer that drives a backend
  (\<^verbatim>\<open>core.ChainIndexer\<close>) is not part of the sources at hand. Its contract is the call
  sequence \<^verbatim>\<open>Reset\<close>, then \<^verbatim>\<open>Process\<close> for each header in order, then
  \<^verbatim>\<open>Commit\<close>; a call that panics or returns an error ends the sequence.
\<close>

fun ChtProcessAll ::
  "'tdb externals \<Rightarrow> 'tdb ChtIndexerBackend \<Rightarrow> Header list \<Rightarrow> status \<times> 'tdb ChtIndexerBackend" where
  "ChtProcessAll ext c [] = (Ok, c)"
| "ChtProcessAll ext c (header # headers) =
     (case ChtProcess ext c header of
        (Ok, c') \<Rightarrow> ChtProcessAll ext c' headers
      | (Panic, c') \<Rightarrow> (Panic, c')
      | (Failed err, c') \<Rightarrow> (Failed err, c'))"

definition ChtRun ::
  "'tdb externals \<Rightarrow> 'tdb ChtIndexerBackend \<Rightarrow> uint64 \<Rightarrow> Hash \<Rightarrow> Header list
     \<Rightarrow> status \<times> 'tdb ChtIndexerBackend" where
  "ChtRun ext c section lastSectionHead headers =
     (case ChtReset ext c section lastSectionHead of
        (Ok, c1) \<Rightarrow>
          (case ChtProcessAll ext c1 headers of
             (Ok, c2) \<Rightarrow> ChtCommit ext c2
           | (Panic, c2) \<Rightarrow> (Panic, c2)
           | (Failed err, c2) \<Rightarrow> (Failed err, c2))
      | (Panic, c1) \<Rightarrow> (Panic, c1)
      | (Failed err, c1) \<Rightarrow> (Failed err, c1))"

fun BloomProcessAll ::
  "'tdb externals \<Rightarrow> 'tdb BloomTrieIndexerBackend \<Rightarrow> Header list
     \<Rightarrow> status \<times> 'tdb BloomTrieIndexerBackend" where
  "BloomProcessAll ext b [] = (Ok, b)"
| "BloomProcessAll ext b (header # headers) =
     (case BloomProcess ext b header of
        (Ok, b') \<Rightarrow> BloomProcessAll ext b' headers
      | (Panic, b') \<Rightarrow> (Panic, b')
      | (Failed err, b') \<Rightarrow> (Failed err, b'))"

definition BloomRun ::
  "'tdb externals \<Rightarrow> 'tdb BloomTrieIndexerBackend \<Rightarrow> uint64 \<Rightarrow> Hash \<Rightarrow> Header list
     \<Rightarrow> status \<times> 'tdb BloomTrieIndexerBackend" where
  "BloomRun ext b section lastSectionHead headers =
     (case BloomReset ext b section lastSectionHead of
        (Ok, b1) \<Rightarrow>
          (case BloomProcessAll ext b1 headers of
             (Ok, b2) \<Rightarrow> BloomCommit ext b2
           | (Panic, b2) \<Rightarrow> (Panic, b2)
           | (Failed err, b2) \<Rightarrow> (Failed err, b2))
      | (Panic, b1) \<Rightarrow> (Panic, b1)
      | (Failed err, b1) \<Rightarrow> (Failed err, b1))"

subsection \<open>The state a run depends on\<close>

text \<open>Two CHT backends agree when they differ in \<^verbatim>\<open>sectionSize\<close> at most, the one
  field that no method reads but for logging.\<close>

definition cht_agree :: "'tdb ChtIndexerBackend \<Rightarrow> 'tdb ChtIndexerBackend \<Rightarrow> bool" where
  "cht_agree x y \<longleftrightarrow>
     c_diskdb x = c_diskdb y \<and> c_triedb x = c_triedb y \<and> c_section x = c_section y
     \<and> c_lastHash x = c_lastHash y \<and> c_trie x = c_trie y"

text \<open>\<^verbatim>\<open>Reset\<close> of the BloomTrie backend leaves \<^verbatim>\<open>sectionHeads\<close> as it is.
  \<open>subsectionIndex section parentSectionSize header\<close> is the entry that \<^verbatim>\<open>Process\<close>
  records for the header, if any. Two BloomTrie backends agree up to the entries in \<open>D\<close>
  when they differ in these entries of \<^verbatim>\<open>sectionHeads\<close> at most.\<close>

definition subsectionIndex :: "uint64 \<Rightarrow> uint64 \<Rightarrow> Header \<Rightarrow> nat option" where
  "subsectionIndex section parentSectionSize header =
     (let num = Uint64 (Number header) - section * BloomTrieFrequency
      in if (num + 1) mod parentSectionSize = 0 then Some (unat (num div parentSectionSize))
         else None)"

definition bloom_agree ::
  "nat set \<Rightarrow> 'tdb BloomTrieIndexerBackend \<Rightarrow> 'tdb BloomTrieIndexerBackend \<Rightarrow> bool" where
  "bloom_agree D x y \<longleftrightarrow>
     b_diskdb x = b_diskdb y \<and> b_triedb x = b_triedb y \<and> b_section x = b_section y
     \<and> b_parentSectionSize x = b_parentSectionSize y \<and> b_bloomTrieRatio x = b_bloomTrieRatio y
     \<and> b_trie x = b_trie y \<and> length (b_sectionHeads x) = length (b_sectionHeads y)
     \<and> (\<forall>j<length (b_sectionHeads x). j \<in> D \<or> b_sectionHeads x ! j = b_sectionHeads y ! j)"

subsection \<open>What the BloomTrie commit is to write\<close>

text \<open>
  The leaves of a committed BloomTrie section in the words of the specification, to be
  compared with the loops of \<^verbatim>\<open>Commit\<close>: \<open>segment ext b i j\<close> is the decompressed
  bitmap of bit \<open>i\<close> in sub-section \<open>j\<close> (\<open>None\<close> when it cannot be read or decompressed),
  \<open>column ext b i\<close> is the concatenation of the \<^verbatim>\<open>bloomTrieRatio\<close> segments of bit \<open>i\<close>,
  \<open>recompressed ext b i\<close> is its compression, and \<open>writeLeaf\<close> puts it into the trie, or
  removes the leaf when it is empty.
\<close>

definition segment ::
  "'tdb externals \<Rightarrow> 'tdb BloomTrieIndexerBackend \<Rightarrow> nat \<Rightarrow> nat \<Rightarrow> bytes option" where
  "segment ext b i j =
     (case ReadBloomBits ext (b_diskdb b) i (b_section b * b_bloomTrieRatio b + of_nat j)
             (b_sectionHeads b ! j) of
        Inl err \<Rightarrow> None
      | Inr data \<Rightarrow>
          (case DecompressBytes ext data (sint (b_parentSectionSize b div 8)) of
             Inl err \<Rightarrow> None
           | Inr decompData \<Rightarrow> Some decompData))"

definition segments_of ::
  "'tdb externals \<Rightarrow> 'tdb BloomTrieIndexerBackend \<Rightarrow> nat \<Rightarrow> nat list \<Rightarrow> bytes" where
  "segments_of ext b i js =
     concat (map (\<lambda>j. case segment ext b i j of None \<Rightarrow> [] | Some d \<Rightarrow> d) js)"

definition column :: "'tdb externals \<Rightarrow> 'tdb BloomTrieIndexerBackend \<Rightarrow> nat \<Rightarrow> bytes" where
  "column ext b i = segments_of ext b i [0..<unat (b_bloomTrieRatio b)]"

definition recompressed :: "'tdb externals \<Rightarrow> 'tdb BloomTrieIndexerBackend \<Rightarrow> nat \<Rightarrow> bytes" where
  "recompressed ext b i = CompressBytes ext (column ext b i)"

definition writeLeaf ::
  "'tdb externals \<Rightarrow> 'tdb BloomTrieIndexerBackend \<Rightarrow> Trie \<Rightarrow> nat \<Rightarrow> Trie" where
  "writeLeaf ext b tr i =
     (if recompressed ext b i = [] then tr(bloomKey i (b_section b) := None)
      else tr(bloomKey i (b_section b) \<mapsto> recompressed ext b i))"

subsection \<open>A sample environment\<close>

text \<open>Concrete collaborators and backends, on which the theorems below are instantiated.
  The node database is the list of the roots whose nodes were written to persistent
  storage; the trie store holds the empty trie only; every header but the one with the zero
  hash has a difficulty record; the bloom columns are zero except for bit 3.
  \<open>failing_ext\<close> differs in one point: writing the trie nodes to persistent storage
  fails.\<close>

definition sample_ext :: "Hash list externals" where
  "sample_ext = \<lparr>
     trie_New = (\<lambda>root tdb. if root = 0 then Inr Map.empty else Inl ''missing trie node''),
     trie_Commit = (\<lambda>t tdb. (Inr 7, tdb)),
     triedb_Commit = (\<lambda>tdb root. (None, root # tdb)),
     ReadTd = (\<lambda>db hash num. if hash = 0 then None else Some 5),
     ReadBloomBits = (\<lambda>db bit section head. if bit = 3 then Inr [1] else Inr [0]),
     DecompressBytes = (\<lambda>data target. Inr data),
     CompressBytes = (\<lambda>data. if list_all (\<lambda>x. x = 0) data then [] else data) \<rparr>"

definition failing_ext :: "Hash list externals" where
  "failing_ext = sample_ext\<lparr>triedb_Commit := (\<lambda>tdb root. (Some ''write failed'', tdb))\<rparr>"

definition sample_cht :: "Hash list ChtIndexerBackend" where
  "sample_cht = \<lparr> c_diskdb = Map.empty, c_triedb = [], c_section = 0, c_sectionSize = 4096,
                   c_lastHash = 9, c_trie = Some Map.empty \<rparr>"

definition sample_bloom :: "Hash list BloomTrieIndexerBackend" where
  "sample_bloom = \<lparr> b_diskdb = Map.empty, b_triedb = [], b_section = 0,
                     b_parentSectionSize = 4096, b_bloomTrieRatio = 8, b_trie = Some Map.empty,
                     b_sectionHeads = [1, 2, 3, 4, 5, 6, 7, 8] \<rparr>"

section \<open>Properties\<close>

subsection \<open>Big-endian encodings\<close>

lemma be_val_snoc: "be_val (xs @ [b]) = be_val xs * 256 + unat b"
  by (simp add: be_val_def)

lemma be_val_Nil: "be_val [] = 0"
  by (simp add: be_val_def)

lemma be_val_be_bytes: "be_val (be_bytes n v) = v mod 256 ^ n"
proof (induction n arbitrary: v)
  case 0
  show ?case by (simp add: be_val_def)
next
  case (Suc n)
  have "be_val (be_bytes (Suc n) v) = (v div 256 mod 256 ^ n) * 256 + v mod 256"
    by (simp add: be_val_snoc Suc unat_of_nat)
  also have "\<dots> = v mod (256 * 256 ^ n)"
    by (simp add: mod_mult2_eq)
  finally show ?case by simp
qed

lemma length_be_bytes: "length (be_bytes n v) = n"
  by (induction n arbitrary: v) simp_all

lemma length_PutUint64: "length (PutUint64 v) = 8"
  by (simp add: PutUint64_def length_be_bytes)

lemma length_PutUint16: "length (PutUint16 v) = 2"
  by (simp add: PutUint16_def length_be_bytes)

lemma length_Hash_Bytes: "length (Hash_Bytes h) = 32"
  by (simp add: Hash_Bytes_def length_be_bytes)

lemma BytesToHash_Hash_Bytes: "BytesToHash (Hash_Bytes h) = h"
proof -
  have "unat h < 2 ^ 256"
    using unsigned_less [of h] by simp
  then have "unat h mod 256 ^ 32 = unat h"
    by simp
  then show ?thesis
    by (simp add: BytesToHash_def Hash_Bytes_def be_val_be_bytes)
qed

lemma BytesToHash_Nil: "BytesToHash [] = 0"
  by (simp add: BytesToHash_def be_val_Nil)

lemma Hash_Bytes_inject: "Hash_Bytes h1 = Hash_Bytes h2 \<longleftrightarrow> h1 = h2"
  by (metis BytesToHash_Hash_Bytes)

lemma PutUint64_inject: "PutUint64 a = PutUint64 b \<longleftrightarrow> a = b"
proof
  assume "PutUint64 a = PutUint64 b"
  then have "be_val (be_bytes 8 (unat a)) = be_val (be_bytes 8 (unat b))"
    by (simp add: PutUint64_def)
  moreover have "unat a < 2 ^ 64" "unat b < 2 ^ 64"
    using unsigned_less [of a] unsigned_less [of b] by simp_all
  ultimately have "unat a = unat b"
    by (simp add: be_val_be_bytes)
  then show "a = b"
    by (simp add: word_unat_eq_iff)
qed simp

lemma PutUint16_inject: "PutUint16 a = PutUint16 b \<longleftrightarrow> a = b"
proof
  assume "PutUint16 a = PutUint16 b"
  then have "be_val (be_bytes 2 (unat a)) = be_val (be_bytes 2 (unat b))"
    by (simp add: PutUint16_def)
  moreover have "unat a < 2 ^ 16" "unat b < 2 ^ 16"
    using unsigned_less [of a] unsigned_less [of b] by simp_all
  ultimately have "unat a = unat b"
    by (simp add: be_val_be_bytes)
  then show "a = b"
    by (simp add: word_unat_eq_iff)
qed simp

subsection \<open>Root keys\<close>

lemma length_chtPrefix: "length chtPrefix = 8"
  by (simp add: chtPrefix_def str_bytes_def)

lemma length_bloomTriePrefix: "length bloomTriePrefix = 8"
  by (simp add: bloomTriePrefix_def str_bytes_def)

lemma prefixes_differ: "chtPrefix \<noteq> bloomTriePrefix"
  by (simp add: chtPrefix_def bloomTriePrefix_def str_bytes_def)

lemma rootKey_inject:
  "length p = length q \<Longrightarrow> rootKey p s h = rootKey q s' h' \<longleftrightarrow> p = q \<and> s = s' \<and> h = h'"
  by (auto simp: rootKey_def length_PutUint64 PutUint64_inject Hash_Bytes_inject)

lemma rootKey_layout:
  "rootKey p s h = p @ be_bytes 8 (unat s) @ be_bytes 32 (unat h) \<and> length (rootKey p s h) = length p + 40"
  by (simp add: rootKey_def PutUint64_def Hash_Bytes_def length_be_bytes)

subsection \<open>The root codec\<close>

lemma GetChtRoot_eq:
  "GetChtRoot db s h = (case db (rootKey chtPrefix s h) of None \<Rightarrow> 0 | Some v \<Rightarrow> BytesToHash v)"
  by (simp add: GetChtRoot_def db_Get_def BytesToHash_Nil split: option.split)

lemma GetBloomTrieRoot_eq:
  "GetBloomTrieRoot db s h =
     (case db (rootKey bloomTriePrefix s h) of None \<Rightarrow> 0 | Some v \<Rightarrow> BytesToHash v)"
  by (simp add: GetBloomTrieRoot_def db_Get_def BytesToHash_Nil split: option.split)

lemma StoreChtRoot_eq: "StoreChtRoot db s h r = db(rootKey chtPrefix s h \<mapsto> Hash_Bytes r)"
  by (simp add: StoreChtRoot_def db_Put_def)

lemma StoreBloomTrieRoot_eq:
  "StoreBloomTrieRoot db s h r = db(rootKey bloomTriePrefix s h \<mapsto> Hash_Bytes r)"
  by (simp add: StoreBloomTrieRoot_def db_Put_def)

lemma chtKey_inject: "rootKey chtPrefix s h = rootKey chtPrefix s' h' \<longleftrightarrow> s = s' \<and> h = h'"
  by (simp add: rootKey_inject)

lemma bloomRootKey_inject:
  "rootKey bloomTriePrefix s h = rootKey bloomTriePrefix s' h' \<longleftrightarrow> s = s' \<and> h = h'"
  by (simp add: rootKey_inject)

lemma cht_bloom_keys_differ: "rootKey chtPrefix s h \<noteq> rootKey bloomTriePrefix s' h'"
  by (simp add: rootKey_inject length_chtPrefix length_bloomTriePrefix prefixes_differ)

lemma Get_Store_ChtRoot: "GetChtRoot (StoreChtRoot db s h r) s h = r"
  by (simp add: GetChtRoot_eq StoreChtRoot_eq BytesToHash_Hash_Bytes)

lemma Get_Store_BloomTrieRoot: "GetBloomTrieRoot (StoreBloomTrieRoot db s h r) s h = r"
  by (simp add: GetBloomTrieRoot_eq StoreBloomTrieRoot_eq BytesToHash_Hash_Bytes)

lemma Get_Store_ChtRoot_other:
  "s' \<noteq> s \<or> h' \<noteq> h \<Longrightarrow> GetChtRoot (StoreChtRoot db s' h' r') s h = GetChtRoot db s h"
  by (auto simp: GetChtRoot_eq StoreChtRoot_eq chtKey_inject)

lemma Get_Store_BloomTrieRoot_other:
  "s' \<noteq> s \<or> h' \<noteq> h \<Longrightarrow>
     GetBloomTrieRoot (StoreBloomTrieRoot db s' h' r') s h = GetBloomTrieRoot db s h"
  by (auto simp: GetBloomTrieRoot_eq StoreBloomTrieRoot_eq bloomRootKey_inject)

text \<open>
  Claim C10. The get operation of either root codec returns the zero hash when the
  database holds nothing under the key of the (section index, section head) pair, and the
  root that the store operation wrote for that pair, also after roots were stored for
  other pairs or by the other codec. The key is the prefix (\<^verbatim>\<open>"chtRoot-"\<close> for the CHT,
  \<^verbatim>\<open>"bltRoot-"\<close> for the BloomTrie), then the section index as 8 bytes big-endian, then
  the 32 bytes of the section head.
\<close>

theorem root_codec_get_after_store:
  "(db (str_bytes ''chtRoot-'' @ PutUint64 s @ Hash_Bytes h) = None \<longrightarrow> GetChtRoot db s h = 0)
   \<and> (db (str_bytes ''bltRoot-'' @ PutUint64 s @ Hash_Bytes h) = None \<longrightarrow> GetBloomTrieRoot db s h = 0)
   \<and> GetChtRoot (StoreChtRoot db s h r) s h = r
   \<and> GetBloomTrieRoot (StoreBloomTrieRoot db s h r) s h = r
   \<and> (s' \<noteq> s \<or> h' \<noteq> h \<longrightarrow>
        GetChtRoot (StoreChtRoot (StoreChtRoot db s h r) s' h' r') s h = r
        \<and> GetBloomTrieRoot (StoreBloomTrieRoot (StoreBloomTrieRoot db s h r) s' h' r') s h = r)
   \<and> GetChtRoot (StoreBloomTrieRoot (StoreChtRoot db s h r) s' h' r') s h = r
   \<and> GetBloomTrieRoot (StoreChtRoot (StoreBloomTrieRoot db s h r) s' h' r') s h = r
   \<and> StoreChtRoot db s h r = db(str_bytes ''chtRoot-'' @ PutUint64 s @ Hash_Bytes h \<mapsto> Hash_Bytes r)
   \<and> StoreBloomTrieRoot db s h r = db(str_bytes ''bltRoot-'' @ PutUint64 s @ Hash_Bytes h \<mapsto> Hash_Bytes r)
   \<and> length (PutUint64 s) = 8 \<and> be_val (PutUint64 s) = unat s
   \<and> length (Hash_Bytes h) = 32 \<and> BytesToHash (Hash_Bytes h) = h"
proof -
  have kc: "rootKey chtPrefix s h = str_bytes ''chtRoot-'' @ PutUint64 s @ Hash_Bytes h"
    by (simp add: rootKey_def chtPrefix_def)
  have kb: "rootKey bloomTriePrefix s h = str_bytes ''bltRoot-'' @ PutUint64 s @ Hash_Bytes h"
    by (simp add: rootKey_def bloomTriePrefix_def)
  have miss_c: "db (str_bytes ''chtRoot-'' @ PutUint64 s @ Hash_Bytes h) = None \<longrightarrow> GetChtRoot db s h = 0"
    by (simp add: GetChtRoot_eq kc)
  have miss_b: "db (str_bytes ''bltRoot-'' @ PutUint64 s @ Hash_Bytes h) = None \<longrightarrow> GetBloomTrieRoot db s h = 0"
    by (simp add: GetBloomTrieRoot_eq kb)
  have other: "s' \<noteq> s \<or> h' \<noteq> h \<longrightarrow>
        GetChtRoot (StoreChtRoot (StoreChtRoot db s h r) s' h' r') s h = r
        \<and> GetBloomTrieRoot (StoreBloomTrieRoot (StoreBloomTrieRoot db s h r) s' h' r') s h = r"
    by (simp add: Get_Store_ChtRoot_other Get_Store_BloomTrieRoot_other Get_Store_ChtRoot
        Get_Store_BloomTrieRoot)
  have cross_c: "GetChtRoot (StoreBloomTrieRoot (StoreChtRoot db s h r) s' h' r') s h = r"
    using cht_bloom_keys_differ [of s h s' h']
    by (simp add: GetChtRoot_eq StoreChtRoot_eq StoreBloomTrieRoot_eq BytesToHash_Hash_Bytes)
  have cross_b: "GetBloomTrieRoot (StoreChtRoot (StoreBloomTrieRoot db s h r) s' h' r') s h = r"
    using cht_bloom_keys_differ [of s' h' s h]
    by (simp add: GetBloomTrieRoot_eq StoreChtRoot_eq StoreBloomTrieRoot_eq BytesToHash_Hash_Bytes)
  have st_c: "StoreChtRoot db s h r = db(str_bytes ''chtRoot-'' @ PutUint64 s @ Hash_Bytes h \<mapsto> Hash_Bytes r)"
    by (simp add: StoreChtRoot_eq kc)
  have st_b: "StoreBloomTrieRoot db s h r = db(str_bytes ''bltRoot-'' @ PutUint64 s @ Hash_Bytes h \<mapsto> Hash_Bytes r)"
    by (simp add: StoreBloomTrieRoot_eq kb)
  have "unat s < 2 ^ 64"
    using unsigned_less [of s] by simp
  then have be: "be_val (PutUint64 s) = unat s"
    by (simp add: PutUint64_def be_val_be_bytes)
  show ?thesis
    by (intro conjI miss_c miss_b other cross_c cross_b st_c st_b be Get_Store_ChtRoot
        Get_Store_BloomTrieRoot length_PutUint64 length_Hash_Bytes BytesToHash_Hash_Bytes)
qed

theorem root_codec_get_after_store_witness:
  "(Map.empty :: Database) (str_bytes ''chtRoot-'' @ PutUint64 1 @ Hash_Bytes 2) = None
   \<and> GetChtRoot Map.empty 1 2 = 0
   \<and> (Map.empty :: Database) (str_bytes ''bltRoot-'' @ PutUint64 1 @ Hash_Bytes 2) = None
   \<and> GetBloomTrieRoot Map.empty 1 2 = 0
   \<and> (4::uint64) \<noteq> 1
   \<and> GetChtRoot (StoreChtRoot (StoreChtRoot Map.empty 1 2 3) 4 5 6) 1 2 = 3
   \<and> GetBloomTrieRoot (StoreBloomTrieRoot (StoreBloomTrieRoot Map.empty 1 2 3) 4 5 6) 1 2 = 3"
proof -
  note t = root_codec_get_after_store [where db = Map.empty and s = 1 and h = 2 and s' = 4
      and h' = 5 and r = 3 and r' = 6]
  have m1: "(Map.empty :: Database) (str_bytes ''chtRoot-'' @ PutUint64 1 @ Hash_Bytes 2) = None"
    by simp
  have m2: "(Map.empty :: Database) (str_bytes ''bltRoot-'' @ PutUint64 1 @ Hash_Bytes 2) = None"
    by simp
  have d: "(4::uint64) \<noteq> 1"
    by simp
  from t m1 m2 d show ?thesis
    by blast
qed

subsection \<open>Reorganisations\<close>

text \<open>
  Claim C7. For a section index and two distinct section heads, the root records of either
  trie kind live under two different database keys: storing a root for the first head and
  then one for the second leaves both retrievable, in either order of the two stores.
\<close>

theorem distinct_heads_disjoint_root_records:
  assumes "h \<noteq> h'"
  shows "rootKey chtPrefix s h \<noteq> rootKey chtPrefix s h'
    \<and> rootKey bloomTriePrefix s h \<noteq> rootKey bloomTriePrefix s h'
    \<and> GetChtRoot (StoreChtRoot (StoreChtRoot db s h r) s h' r') s h = r
    \<and> GetChtRoot (StoreChtRoot (StoreChtRoot db s h r) s h' r') s h' = r'
    \<and> GetBloomTrieRoot (StoreBloomTrieRoot (StoreBloomTrieRoot db s h r) s h' r') s h = r
    \<and> GetBloomTrieRoot (StoreBloomTrieRoot (StoreBloomTrieRoot db s h r) s h' r') s h' = r'
    \<and> StoreChtRoot (StoreChtRoot db s h r) s h' r' = StoreChtRoot (StoreChtRoot db s h' r') s h r
    \<and> StoreBloomTrieRoot (StoreBloomTrieRoot db s h r) s h' r'
        = StoreBloomTrieRoot (StoreBloomTrieRoot db s h' r') s h r"
proof -
  have kc: "rootKey chtPrefix s h \<noteq> rootKey chtPrefix s h'"
    using assms by (simp add: chtKey_inject)
  have kb: "rootKey bloomTriePrefix s h \<noteq> rootKey bloomTriePrefix s h'"
    using assms by (simp add: bloomRootKey_inject)
  have c1: "GetChtRoot (StoreChtRoot (StoreChtRoot db s h r) s h' r') s h = r"
    using assms by (simp add: Get_Store_ChtRoot_other Get_Store_ChtRoot)
  have b1: "GetBloomTrieRoot (StoreBloomTrieRoot (StoreBloomTrieRoot db s h r) s h' r') s h = r"
    using assms by (simp add: Get_Store_BloomTrieRoot_other Get_Store_BloomTrieRoot)
  have sc: "StoreChtRoot (StoreChtRoot db s h r) s h' r' = StoreChtRoot (StoreChtRoot db s h' r') s h r"
    using kc by (auto simp: StoreChtRoot_eq)
  have sb: "StoreBloomTrieRoot (StoreBloomTrieRoot db s h r) s h' r'
        = StoreBloomTrieRoot (StoreBloomTrieRoot db s h' r') s h r"
    using kb by (auto simp: StoreBloomTrieRoot_eq)
  show ?thesis
    by (intro conjI kc kb c1 b1 sc sb Get_Store_ChtRoot Get_Store_BloomTrieRoot)
qed

theorem distinct_heads_disjoint_root_records_witness:
  "(1::Hash) \<noteq> 2
   \<and> GetChtRoot (StoreChtRoot (StoreChtRoot Map.empty 0 1 3) 0 2 4) 0 1 = 3
   \<and> GetChtRoot (StoreChtRoot (StoreChtRoot Map.empty 0 1 3) 0 2 4) 0 2 = 4
   \<and> GetBloomTrieRoot (StoreBloomTrieRoot (StoreBloomTrieRoot Map.empty 0 1 3) 0 2 4) 0 1 = 3
   \<and> GetBloomTrieRoot (StoreBloomTrieRoot (StoreBloomTrieRoot Map.empty 0 1 3) 0 2 4) 0 2 = 4"
proof -
  have ne: "(1::Hash) \<noteq> 2" by simp
  show ?thesis
    using ne distinct_heads_disjoint_root_records [OF ne, where s = 0 and db = Map.empty and r = 3 and r' = 4]
    by blast
qed

subsection \<open>Reset\<close>

text \<open>
  Claim C2. \<^verbatim>\<open>Reset(s, h)\<close> of either backend opens the trie at the root that the
  backend's root codec reads from the database under the key of \<open>(s - 1, h)\<close> when
  \<open>s > 0\<close>, and at the zero (empty) root when \<open>s = 0\<close>; it returns the error of opening
  the trie there, if any. In particular, when a root \<open>r\<close> was stored for \<open>(s - 1, h)\<close>,
  the trie is opened at \<open>r\<close>.
\<close>

theorem Reset_opens_trie_at_previous_root:
  fixes c :: "'tdb ChtIndexerBackend" and b :: "'tdb BloomTrieIndexerBackend"
  shows
  "ChtReset ext c s h =
     (case trie_New ext (if s = 0 then 0 else GetChtRoot (c_diskdb c) (s - 1) h) (c_triedb c) of
        Inl err \<Rightarrow> (Failed err, c\<lparr>c_trie := None, c_section := s\<rparr>)
      | Inr t \<Rightarrow> (Ok, c\<lparr>c_trie := Some t, c_section := s\<rparr>))
   \<and> BloomReset ext b s h =
     (case trie_New ext (if s = 0 then 0 else GetBloomTrieRoot (b_diskdb b) (s - 1) h) (b_triedb b) of
        Inl err \<Rightarrow> (Failed err, b\<lparr>b_trie := None, b_section := s\<rparr>)
      | Inr t \<Rightarrow> (Ok, b\<lparr>b_trie := Some t, b_section := s\<rparr>))
   \<and> (s \<noteq> 0 \<longrightarrow>
        fst (ChtReset ext (c\<lparr>c_diskdb := StoreChtRoot db (s - 1) h r\<rparr>) s h) =
          (case trie_New ext r (c_triedb c) of Inl err \<Rightarrow> Failed err | Inr t \<Rightarrow> Ok)
        \<and> c_trie (snd (ChtReset ext (c\<lparr>c_diskdb := StoreChtRoot db (s - 1) h r\<rparr>) s h)) =
          (case trie_New ext r (c_triedb c) of Inl err \<Rightarrow> None | Inr t \<Rightarrow> Some t)
        \<and> fst (BloomReset ext (b\<lparr>b_diskdb := StoreBloomTrieRoot db (s - 1) h r\<rparr>) s h) =
          (case trie_New ext r (b_triedb b) of Inl err \<Rightarrow> Failed err | Inr t \<Rightarrow> Ok)
        \<and> b_trie (snd (BloomReset ext (b\<lparr>b_diskdb := StoreBloomTrieRoot db (s - 1) h r\<rparr>) s h)) =
          (case trie_New ext r (b_triedb b) of Inl err \<Rightarrow> None | Inr t \<Rightarrow> Some t))"
proof -
  have pos: "0 < s \<longleftrightarrow> s \<noteq> 0"
    by (simp add: word_gt_0)
  have cht: "ChtReset ext c' s h =
     (case trie_New ext (if s = 0 then 0 else GetChtRoot (c_diskdb c') (s - 1) h) (c_triedb c') of
        Inl err \<Rightarrow> (Failed err, c'\<lparr>c_trie := None, c_section := s\<rparr>)
      | Inr t \<Rightarrow> (Ok, c'\<lparr>c_trie := Some t, c_section := s\<rparr>))" for c' :: "'tdb ChtIndexerBackend"
    by (simp add: ChtReset_def pos)
  have blt: "BloomReset ext b' s h =
     (case trie_New ext (if s = 0 then 0 else GetBloomTrieRoot (b_diskdb b') (s - 1) h) (b_triedb b') of
        Inl err \<Rightarrow> (Failed err, b'\<lparr>b_trie := None, b_section := s\<rparr>)
      | Inr t \<Rightarrow> (Ok, b'\<lparr>b_trie := Some t, b_section := s\<rparr>))" for b' :: "'tdb BloomTrieIndexerBackend"
    by (simp add: BloomReset_def pos)
  have chain: "s \<noteq> 0 \<longrightarrow>
        fst (ChtReset ext (c\<lparr>c_diskdb := StoreChtRoot db (s - 1) h r\<rparr>) s h) =
          (case trie_New ext r (c_triedb c) of Inl err \<Rightarrow> Failed err | Inr t \<Rightarrow> Ok)
        \<and> c_trie (snd (ChtReset ext (c\<lparr>c_diskdb := StoreChtRoot db (s - 1) h r\<rparr>) s h)) =
          (case trie_New ext r (c_triedb c) of Inl err \<Rightarrow> None | Inr t \<Rightarrow> Some t)
        \<and> fst (BloomReset ext (b\<lparr>b_diskdb := StoreBloomTrieRoot db (s - 1) h r\<rparr>) s h) =
          (case trie_New ext r (b_triedb b) of Inl err \<Rightarrow> Failed err | Inr t \<Rightarrow> Ok)
        \<and> b_trie (snd (BloomReset ext (b\<lparr>b_diskdb := StoreBloomTrieRoot db (s - 1) h r\<rparr>) s h)) =
          (case trie_New ext r (b_triedb b) of Inl err \<Rightarrow> None | Inr t \<Rightarrow> Some t)"
    by (simp add: cht blt Get_Store_ChtRoot Get_Store_BloomTrieRoot split: sum.split)
  show ?thesis
    by (intro conjI cht blt chain)
qed

theorem Reset_opens_trie_at_previous_root_witness:
  "(1::uint64) \<noteq> 0
   \<and> fst (ChtReset sample_ext (sample_cht\<lparr>c_diskdb := StoreChtRoot Map.empty (1 - 1) 9 7\<rparr>) 1 9)
       = Failed ''missing trie node''
   \<and> fst (BloomReset sample_ext (sample_bloom\<lparr>b_diskdb := StoreBloomTrieRoot Map.empty (1 - 1) 9 0\<rparr>) 1 9)
       = Ok"
proof -
  note t = Reset_opens_trie_at_previous_root [where ext = sample_ext and c = sample_cht
      and b = sample_bloom and s = 1 and h = 9 and db = Map.empty]
  have one: "(1::uint64) \<noteq> 0"
    by simp
  have "fst (ChtReset sample_ext (sample_cht\<lparr>c_diskdb := StoreChtRoot Map.empty (1 - 1) 9 7\<rparr>) 1 9)
       = Failed ''missing trie node''"
    using t [where r = 7] one by (simp add: sample_ext_def)
  moreover have "fst (BloomReset sample_ext
       (sample_bloom\<lparr>b_diskdb := StoreBloomTrieRoot Map.empty (1 - 1) 9 0\<rparr>) 1 9) = Ok"
    using t [where r = 0] one by (simp add: sample_ext_def)
  ultimately show ?thesis
    using one by blast
qed

subsection \<open>Process of the CHT backend\<close>

text \<open>
  Claim C6. When the total difficulty of the header's (hash, number) is absent from the
  database, \<^verbatim>\<open>Process\<close> of the CHT backend panics: it returns neither normally nor
  with an error, and nothing is written into the trie.
\<close>

theorem Process_panics_without_total_difficulty:
  assumes "ReadTd ext (c_diskdb c) (HeaderHash header) (Uint64 (Number header)) = None"
  shows "ChtProcess ext c header = (Panic, c\<lparr>c_lastHash := HeaderHash header\<rparr>)"
  using assms by (simp add: ChtProcess_def)

theorem Process_panics_without_total_difficulty_witness:
  "ReadTd sample_ext (c_diskdb sample_cht) (HeaderHash \<lparr>HeaderHash = 0, Number = 5\<rparr>)
     (Uint64 (Number \<lparr>HeaderHash = 0, Number = 5\<rparr>)) = None
   \<and> fst (ChtProcess sample_ext sample_cht \<lparr>HeaderHash = 0, Number = 5\<rparr>) = Panic
   \<and> c_trie (snd (ChtProcess sample_ext sample_cht \<lparr>HeaderHash = 0, Number = 5\<rparr>)) = c_trie sample_cht"
proof -
  have a: "ReadTd sample_ext (c_diskdb sample_cht) (HeaderHash \<lparr>HeaderHash = 0, Number = 5\<rparr>)
     (Uint64 (Number \<lparr>HeaderHash = 0, Number = 5\<rparr>)) = None"
    by (simp add: sample_ext_def)
  show ?thesis
    using a Process_panics_without_total_difficulty [OF a] by simp
qed

text \<open>The encoding of a \<^verbatim>\<open>ChtNode\<close>: the integer bytes are big-endian and minimal, and
  the node can be read back from its encoding.\<close>

lemma be_min_0: "be_min 0 = []"
  by (simp add: be_min.simps)

lemma be_min_pos: "n \<noteq> 0 \<Longrightarrow> be_min n = be_min (n div 256) @ [of_nat (n mod 256)]"
  by (subst be_min.simps) simp

lemma be_min_eq_Nil: "be_min n = [] \<longleftrightarrow> n = 0"
  by (cases "n = 0") (simp_all add: be_min_0 be_min_pos)

lemma be_val_be_min: "be_val (be_min n) = n"
proof (induction n rule: be_min.induct)
  case (1 n)
  show ?case
  proof (cases "n = 0")
    case True
    then show ?thesis by (simp add: be_min_0 be_val_Nil)
  next
    case False
    with "1" have "be_val (be_min (n div 256)) = n div 256"
      by simp
    with False show ?thesis
      by (simp add: be_min_pos be_val_snoc unat_of_nat)
  qed
qed

lemma be_min_inject: "be_min a = be_min b \<longleftrightarrow> a = b"
  by (metis be_val_be_min)

lemma hd_be_min: "n \<noteq> 0 \<Longrightarrow> hd (be_min n) \<noteq> 0"
proof (induction n rule: be_min.induct)
  case (1 n)
  show ?case
  proof (cases "n div 256 = 0")
    case True
    with "1.prems" have "n < 256"
      by (simp add: div_eq_0_iff)
    then have "unat (of_nat n :: byte) = n"
      by (simp add: unat_of_nat)
    with "1.prems" have "(of_nat n :: byte) \<noteq> 0"
      by auto
    moreover have "be_min n = [of_nat n]"
      using "1.prems" True \<open>n < 256\<close> by (simp add: be_min_pos be_min_0)
    ultimately show ?thesis by simp
  next
    case False
    with "1" have "hd (be_min (n div 256)) \<noteq> 0"
      by simp
    moreover have "be_min (n div 256) \<noteq> []"
      using False by (simp add: be_min_eq_Nil)
    ultimately show ?thesis
      using "1.prems" by (simp add: be_min_pos)
  qed
qed

lemma length_be_min: "n < 256 ^ k \<Longrightarrow> length (be_min n) \<le> k"
proof (induction k arbitrary: n)
  case 0
  then show ?case by (simp add: be_min_0)
next
  case (Suc k)
  show ?case
  proof (cases "n = 0")
    case True
    then show ?thesis by (simp add: be_min_0)
  next
    case False
    from Suc.prems have "n div 256 < 256 ^ k"
      by (simp add: less_mult_imp_div_less mult.commute)
    then have "length (be_min (n div 256)) \<le> k"
      by (rule Suc.IH)
    with False show ?thesis
      by (simp add: be_min_pos)
  qed
qed

lemma EncodeToBytes_nonneg:
  "0 \<le> td \<Longrightarrow>
     EncodeToBytes \<lparr>Hash = H, Td = td\<rparr> =
       Inr (Hash_Bytes H @ of_nat (length (be_min (nat td))) # be_min (nat td))"
  by (simp add: EncodeToBytes_def)

lemma EncodeToBytes_inject:
  assumes "0 \<le> td" and "0 \<le> td'"
    and "EncodeToBytes \<lparr>Hash = H', Td = td'\<rparr> = EncodeToBytes \<lparr>Hash = H, Td = td\<rparr>"
  shows "H' = H \<and> td' = td"
proof -
  from assms have "Hash_Bytes H' @ of_nat (length (be_min (nat td'))) # be_min (nat td')
      = Hash_Bytes H @ of_nat (length (be_min (nat td))) # be_min (nat td)"
    by (simp add: EncodeToBytes_nonneg)
  then have "Hash_Bytes H' = Hash_Bytes H" and "be_min (nat td') = be_min (nat td)"
    by (simp_all add: length_Hash_Bytes)
  then have "H' = H" and "nat td' = nat td"
    by (simp_all add: Hash_Bytes_inject be_min_inject)
  with assms(1,2) show ?thesis
    by simp
qed

text \<open>
  Claim C8. For a header with hash \<open>H\<close> and block number \<open>n\<close> whose total difficulty
  \<open>td\<close> (an unsigned integer) is recorded, \<^verbatim>\<open>Process\<close> of the CHT backend with an open
  trie sets the last hash to \<open>H\<close> and writes into the trie, at the key that is the 8-byte
  big-endian encoding of \<open>n\<close>, the encoding of the pair \<open>(H, td)\<close>: first the 32 bytes of
  \<open>H\<close>, then the difficulty as a length byte followed by that many bytes, big-endian
  without a leading zero byte. The encoding is canonical: no other pair has it.
\<close>

theorem Process_writes_ChtNode:
  assumes "ReadTd ext (c_diskdb c) (HeaderHash header) (Uint64 (Number header)) = Some td"
    and "0 \<le> td"
    and "c_trie c = Some t"
  shows "ChtProcess ext c header =
      (Ok, c\<lparr>c_lastHash := HeaderHash header,
              c_trie := Some (t(PutUint64 (Uint64 (Number header)) \<mapsto>
                                 Hash_Bytes (HeaderHash header)
                                 @ of_nat (length (be_min (nat td))) # be_min (nat td)))\<rparr>)
    \<and> EncodeToBytes \<lparr>Hash = HeaderHash header, Td = td\<rparr> =
        Inr (Hash_Bytes (HeaderHash header) @ of_nat (length (be_min (nat td))) # be_min (nat td))
    \<and> length (PutUint64 (Uint64 (Number header))) = 8
    \<and> be_val (PutUint64 (Uint64 (Number header))) = Number header mod 2 ^ 64
    \<and> length (Hash_Bytes (HeaderHash header)) = 32
    \<and> BytesToHash (Hash_Bytes (HeaderHash header)) = HeaderHash header
    \<and> be_val (be_min (nat td)) = nat td
    \<and> (td \<noteq> 0 \<longrightarrow> hd (be_min (nat td)) \<noteq> 0)
    \<and> (td < 256 ^ 255 \<longrightarrow>
          unat (of_nat (length (be_min (nat td))) :: byte) = length (be_min (nat td)))
    \<and> (\<forall>H' td'. 0 \<le> td'
          \<and> EncodeToBytes \<lparr>Hash = H', Td = td'\<rparr>
              = EncodeToBytes \<lparr>Hash = HeaderHash header, Td = td\<rparr>
          \<longrightarrow> H' = HeaderHash header \<and> td' = td)"
proof -
  have "unat (Uint64 (Number header)) = Number header mod 2 ^ 64"
    by (simp add: Uint64_def unat_of_nat)
  then have key: "be_val (PutUint64 (Uint64 (Number header))) = Number header mod 2 ^ 64"
    by (simp add: PutUint64_def be_val_be_bytes)
  have enc: "EncodeToBytes \<lparr>Hash = HeaderHash header, Td = td\<rparr> =
        Inr (Hash_Bytes (HeaderHash header) @ of_nat (length (be_min (nat td))) # be_min (nat td))"
    using assms(2) by (rule EncodeToBytes_nonneg)
  have run: "ChtProcess ext c header =
      (Ok, c\<lparr>c_lastHash := HeaderHash header,
              c_trie := Some (t(PutUint64 (Uint64 (Number header)) \<mapsto>
                                 Hash_Bytes (HeaderHash header)
                                 @ of_nat (length (be_min (nat td))) # be_min (nat td)))\<rparr>)"
    using assms(1,3) by (simp add: ChtProcess_def Let_def trie_Update_def enc)
  have lead: "td \<noteq> 0 \<longrightarrow> hd (be_min (nat td)) \<noteq> 0"
    using assms(2) by (simp add: hd_be_min)
  have pre: "td < 256 ^ 255 \<longrightarrow>
          unat (of_nat (length (be_min (nat td))) :: byte) = length (be_min (nat td))"
  proof
    assume "td < 256 ^ 255"
    with assms(2) have "nat td < 256 ^ 255"
      by (simp add: nat_less_iff)
    then have "length (be_min (nat td)) \<le> 255"
      by (rule length_be_min)
    then show "unat (of_nat (length (be_min (nat td))) :: byte) = length (be_min (nat td))"
      by (simp add: unat_of_nat)
  qed
  have canon: "\<forall>H' td'. 0 \<le> td'
          \<and> EncodeToBytes \<lparr>Hash = H', Td = td'\<rparr>
              = EncodeToBytes \<lparr>Hash = HeaderHash header, Td = td\<rparr>
          \<longrightarrow> H' = HeaderHash header \<and> td' = td"
    using EncodeToBytes_inject [OF assms(2)] by blast
  show ?thesis
    by (intro conjI run enc length_PutUint64 key length_Hash_Bytes BytesToHash_Hash_Bytes
        be_val_be_min lead pre canon)
qed

theorem Process_writes_ChtNode_witness:
  "ReadTd sample_ext (c_diskdb sample_cht) (HeaderHash \<lparr>HeaderHash = 6, Number = 258\<rparr>)
     (Uint64 (Number \<lparr>HeaderHash = 6, Number = 258\<rparr>)) = Some 5
   \<and> (0::int) \<le> 5
   \<and> c_trie sample_cht = Some Map.empty
   \<and> fst (ChtProcess sample_ext sample_cht \<lparr>HeaderHash = 6, Number = 258\<rparr>) = Ok
   \<and> c_lastHash (snd (ChtProcess sample_ext sample_cht \<lparr>HeaderHash = 6, Number = 258\<rparr>)) = 6
   \<and> c_trie (snd (ChtProcess sample_ext sample_cht \<lparr>HeaderHash = 6, Number = 258\<rparr>))
       = Some [PutUint64 258 \<mapsto> Hash_Bytes 6 @ [1, 5]]"
proof -
  have a: "ReadTd sample_ext (c_diskdb sample_cht) (HeaderHash \<lparr>HeaderHash = 6, Number = 258\<rparr>)
     (Uint64 (Number \<lparr>HeaderHash = 6, Number = 258\<rparr>)) = Some 5"
    by (simp add: sample_ext_def)
  have p: "(0::int) \<le> 5"
    by simp
  have b: "c_trie sample_cht = Some Map.empty"
    by (simp add: sample_cht_def)
  have e: "be_min 5 = [5]"
    by (simp add: be_min_pos be_min_0)
  show ?thesis
    using a p b Process_writes_ChtNode [OF a p b] by (simp add: e Uint64_def)
qed

subsection \<open>Process of the BloomTrie backend\<close>

text \<open>A header of the current section, on a backend whose sub-section-head array has
  \<^verbatim>\<open>BloomTrieFrequency / parentSectionSize\<close> entries as \<^verbatim>\<open>NewBloomTrieIndexer\<close> makes
  it, never indexes beyond the array.\<close>

lemma in_section_index_in_range:
  fixes num p :: uint64
  assumes p: "p \<noteq> 0" and n: "num < 32768" and m: "(num + 1) mod p = 0"
  shows "unat (num div p) < unat (32768 div p)"
proof -
  have n': "unat num < 32768"
    using n by (simp add: word_less_nat_alt)
  have q: "0 < unat p"
    using p by (simp add: unat_gt_0)
  have s: "unat (num + 1) = unat num + 1"
    using n' by (simp add: unat_word_ariths)
  have "unat ((num + 1) mod p) = 0"
    using m by simp
  then have d: "(unat num + 1) mod unat p = 0"
    by (simp add: unat_mod s)
  then have "unat p dvd unat num + 1"
    by (simp add: dvd_eq_mod_eq_0)
  then obtain k where k: "unat num + 1 = k * unat p"
    unfolding dvd_def by (auto simp: mult.commute)
  have kpos: "0 < k"
    using k by (cases k) simp_all
  define r where "r = unat p - 1"
  have r: "r < unat p"
    using q by (simp add: r_def)
  have "unat num = (k - 1) * unat p + r"
    using k kpos q by (cases k) (simp_all add: r_def)
  then have a: "unat num div unat p = k - 1"
    using r by simp
  have "k * unat p \<le> 32768"
    using k n' by simp
  then have "k \<le> 32768 div unat p"
    using q by (simp add: less_eq_div_iff_mult_less_eq)
  with a kpos have "unat num div unat p < 32768 div unat p"
    by simp
  then show ?thesis
    by (simp add: unat_div)
qed

lemma BloomProcess_in_section:
  assumes "num = Uint64 (Number header) - b_section b * 32768"
    and "b_parentSectionSize b \<noteq> 0"
    and "b_bloomTrieRatio b = 32768 div b_parentSectionSize b"
    and "length (b_sectionHeads b) = unat (b_bloomTrieRatio b)"
    and "num < 32768"
  shows "(num + 1) mod b_parentSectionSize b = 0
           \<longrightarrow> unat (num div b_parentSectionSize b) < length (b_sectionHeads b)"
  using assms in_section_index_in_range [of "b_parentSectionSize b" num] by simp

text \<open>
  Claim C9. With \<open>num = blockNumber - section * BloomTrieFrequency\<close> (in unsigned 64-bit
  arithmetic): if \<open>(num + 1) mod parentSectionSize = 0\<close>, \<^verbatim>\<open>Process\<close> of the BloomTrie
  backend records the header's hash at index \<open>num div parentSectionSize\<close> of the
  sub-section-head array, and otherwise it leaves the backend unchanged. The backend has
  a non-zero \<open>parentSectionSize\<close>, and the index is one of the array, as it is for
  every header of the current section (else the Go code panics).
\<close>

theorem BloomProcess_records_subsection_head:
  assumes "num = Uint64 (Number header) - b_section b * 32768"
    and "b_parentSectionSize b \<noteq> 0"
    and "(num + 1) mod b_parentSectionSize b = 0
           \<longrightarrow> unat (num div b_parentSectionSize b) < length (b_sectionHeads b)"
  shows "BloomProcess ext b header =
      (Ok, if (num + 1) mod b_parentSectionSize b = 0
           then b\<lparr>b_sectionHeads :=
                    (b_sectionHeads b)[unat (num div b_parentSectionSize b) := HeaderHash header]\<rparr>
           else b)"
  using assms by (simp add: BloomProcess_def BloomTrieFrequency_def)

theorem BloomProcess_records_subsection_head_witness:
  "(4095::uint64) = Uint64 (Number \<lparr>HeaderHash = 6, Number = 4095\<rparr>) - b_section sample_bloom * 32768
   \<and> b_parentSectionSize sample_bloom \<noteq> 0
   \<and> (4095 + 1) mod b_parentSectionSize sample_bloom = 0
   \<and> unat (4095 div b_parentSectionSize sample_bloom) < length (b_sectionHeads sample_bloom)
   \<and> BloomProcess sample_ext sample_bloom \<lparr>HeaderHash = 6, Number = 4095\<rparr>
       = (Ok, sample_bloom\<lparr>b_sectionHeads := [6, 2, 3, 4, 5, 6, 7, 8]\<rparr>)"
proof -
  have a: "(4095::uint64) = Uint64 (Number \<lparr>HeaderHash = 6, Number = 4095\<rparr>) - b_section sample_bloom * 32768"
    by (simp add: sample_bloom_def Uint64_def)
  have p: "b_parentSectionSize sample_bloom \<noteq> 0"
    by (simp add: sample_bloom_def)
  have m: "(4095 + 1) mod b_parentSectionSize sample_bloom = 0"
    by (simp add: sample_bloom_def)
  have i: "unat (4095 div b_parentSectionSize sample_bloom) < length (b_sectionHeads sample_bloom)"
    by (simp add: sample_bloom_def)
  have "BloomProcess sample_ext sample_bloom \<lparr>HeaderHash = 6, Number = 4095\<rparr>
       = (Ok, sample_bloom\<lparr>b_sectionHeads := [6, 2, 3, 4, 5, 6, 7, 8]\<rparr>)"
    using BloomProcess_records_subsection_head [OF a p, of sample_ext] m i
    by (simp add: sample_bloom_def)
  then show ?thesis
    using a p m i by blast
qed

subsection \<open>Commit of the CHT backend\<close>

lemma ChtCommit_failure_writes_no_root:
  "fst (ChtCommit ext c) \<noteq> Ok \<Longrightarrow> c_diskdb (snd (ChtCommit ext c)) = c_diskdb c"
  by (auto simp: ChtCommit_def split: option.splits prod.splits sum.splits)

lemma ChtCommit_trie_commit_error:
  "c_trie c = Some t \<Longrightarrow> fst (trie_Commit ext t (c_triedb c)) = Inl err \<Longrightarrow>
     fst (ChtCommit ext c) = Failed err"
  by (auto simp: ChtCommit_def split: prod.splits sum.splits)

subsection \<open>Commit of the BloomTrie backend\<close>

lemma readSegments_Ok_iff:
  "readSegments ext b i js acc = (Ok, d) \<longleftrightarrow>
     (\<forall>j\<in>set js. j < length (b_sectionHeads b) \<and> segment ext b i j \<noteq> None)
     \<and> d = acc @ segments_of ext b i js"
proof (induction js arbitrary: acc)
  case Nil
  show ?case by (auto simp: segments_of_def)
next
  case (Cons j js)
  show ?case
    by (auto simp: Cons.IH segment_def segments_of_def split: sum.splits)
qed

lemma of_nat_16_inject:
  "i < 65536 \<Longrightarrow> k < 65536 \<Longrightarrow> (of_nat i :: 16 word) = of_nat k \<longleftrightarrow> i = k"
  by (simp add: word_of_nat_eq_iff take_bit_nat_eq_self)

lemma bloomKey_inject:
  "i < 65536 \<Longrightarrow> k < 65536 \<Longrightarrow> bloomKey i s = bloomKey k s \<longleftrightarrow> i = k"
  by (simp add: bloomKey_def length_PutUint16 PutUint16_inject of_nat_16_inject)

lemma commitBits_Ok_iff:
  "commitBits ext b ks (Some tr) = (Ok, t') \<longleftrightarrow>
     (\<forall>i\<in>set ks. \<forall>j<unat (b_bloomTrieRatio b).
         j < length (b_sectionHeads b) \<and> segment ext b i j \<noteq> None)
     \<and> t' = Some (foldl (writeLeaf ext b) tr ks)"
proof (induction ks arbitrary: tr)
  case Nil
  show ?case by auto
next
  case (Cons i ks)
  obtain st d where rs: "readSegments ext b i [0..<unat (b_bloomTrieRatio b)] [] = (st, d)"
    by (cases "readSegments ext b i [0..<unat (b_bloomTrieRatio b)] []")
  show ?case
  proof (cases st)
    case Ok
    with rs have ok: "(\<forall>j<unat (b_bloomTrieRatio b). j < length (b_sectionHeads b) \<and> segment ext b i j \<noteq> None)"
      and d: "d = column ext b i"
      by (simp_all add: readSegments_Ok_iff column_def)
    have step: "commitBits ext b (i # ks) (Some tr) = commitBits ext b ks (Some (writeLeaf ext b tr i))"
      using rs Ok d
      by (simp add: writeLeaf_def recompressed_def trie_Update_def trie_Delete_def Let_def)
    show ?thesis
      unfolding step Cons.IH using ok by simp
  next
    case Panic
    with rs have "\<not> (\<forall>j<unat (b_bloomTrieRatio b). j < length (b_sectionHeads b) \<and> segment ext b i j \<noteq> None)"
      using readSegments_Ok_iff [of ext b i "[0..<unat (b_bloomTrieRatio b)]" "[]" "column ext b i"]
      by (auto simp: column_def)
    with rs Panic show ?thesis by auto
  next
    case (Failed e)
    with rs have "\<not> (\<forall>j<unat (b_bloomTrieRatio b). j < length (b_sectionHeads b) \<and> segment ext b i j \<noteq> None)"
      using readSegments_Ok_iff [of ext b i "[0..<unat (b_bloomTrieRatio b)]" "[]" "column ext b i"]
      by (auto simp: column_def)
    with rs Failed show ?thesis by auto
  qed
qed

lemma foldl_writeLeaf_other:
  "k \<notin> (\<lambda>i. bloomKey i (b_section b)) ` set ks \<Longrightarrow> foldl (writeLeaf ext b) tr ks k = tr k"
  by (induction ks arbitrary: tr) (auto simp: writeLeaf_def)

lemma foldl_writeLeaf_at:
  "distinct ks \<Longrightarrow> \<forall>i\<in>set ks. i < 65536 \<Longrightarrow> i \<in> set ks \<Longrightarrow>
     foldl (writeLeaf ext b) tr ks (bloomKey i (b_section b)) =
       (if recompressed ext b i = [] then None else Some (recompressed ext b i))"
proof (induction ks arbitrary: tr)
  case Nil
  then show ?case by simp
next
  case (Cons k ks)
  show ?case
  proof (cases "i = k")
    case True
    have "bloomKey k (b_section b) \<notin> (\<lambda>i. bloomKey i (b_section b)) ` set ks"
      using Cons.prems by (auto simp: bloomKey_inject)
    then have "foldl (writeLeaf ext b) (writeLeaf ext b tr k) ks (bloomKey k (b_section b))
        = writeLeaf ext b tr k (bloomKey k (b_section b))"
      by (rule foldl_writeLeaf_other)
    moreover have "writeLeaf ext b tr k (bloomKey k (b_section b))
        = (if recompressed ext b k = [] then None else Some (recompressed ext b k))"
      by (simp add: writeLeaf_def)
    ultimately show ?thesis
      using True by simp
  next
    case False
    with Cons show ?thesis by simp
  qed
qed


lemma commitBits_None: "ks \<noteq> [] \<Longrightarrow> fst (commitBits ext b ks None) \<noteq> Ok"
  by (cases ks) (auto simp: Let_def split: prod.splits status.splits)

lemma BloomCommit_Ok_D:
  assumes "BloomCommit ext b = (Ok, b')"
  shows "\<exists>tr0 tr root tdb res tdb'.
      b_trie b = Some tr0
    \<and> commitBits ext b [0..<BloomBitLength] (Some tr0) = (Ok, Some tr)
    \<and> trie_Commit ext tr (b_triedb b) = (Inr root, tdb)
    \<and> triedb_Commit ext tdb root = (res, tdb')
    \<and> unat (b_bloomTrieRatio b - 1) < length (b_sectionHeads b)
    \<and> b' = b\<lparr>b_trie := Some tr, b_triedb := tdb',
              b_diskdb := StoreBloomTrieRoot (b_diskdb b) (b_section b)
                            (b_sectionHeads b ! unat (b_bloomTrieRatio b - 1)) root\<rparr>"
proof (cases "b_trie b")
  case None
  have "[0..<BloomBitLength] \<noteq> []"
    by (simp add: BloomBitLength_def)
  then have "fst (commitBits ext b [0..<BloomBitLength] None) \<noteq> Ok"
    by (rule commitBits_None)
  with assms None show ?thesis
    by (auto simp: BloomCommit_def split: prod.splits status.splits option.splits)
next
  case (Some tr0)
  with assms show ?thesis
    by (auto simp: BloomCommit_def Let_def
        split: prod.splits status.splits option.splits sum.splits if_splits)
qed

text \<open>
  Claim C4. After a successful \<^verbatim>\<open>Commit\<close> of the BloomTrie backend for section \<open>s\<close>,
  for every bit index \<open>i\<close> below \<open>BloomBitLength\<close>: every one of the \<^verbatim>\<open>bloomTrieRatio\<close>
  sub-section bitmaps of bit \<open>i\<close> was read and decompressed, and the committed trie holds
  at the key \<open>bigEndian16(i) @ bigEndian64(s)\<close> the recompression of their concatenation
  when that is not empty, and no leaf when it is empty. The root record is stored under
  \<open>s\<close> and the entry \<^verbatim>\<open>bloomTrieRatio - 1\<close> of the sub-section-head array, its last entry
  when the array has \<^verbatim>\<open>bloomTrieRatio\<close> entries.
\<close>

theorem BloomCommit_leaves:
  assumes "BloomCommit ext b = (Ok, b')"
  shows "\<exists>tr root tdb.
      b_trie b' = Some tr
    \<and> trie_Commit ext tr (b_triedb b) = (Inr root, tdb)
    \<and> (\<forall>i<BloomBitLength.
          (\<forall>j<unat (b_bloomTrieRatio b). segment ext b i j \<noteq> None)
          \<and> tr (PutUint16 (of_nat i) @ PutUint64 (b_section b)) =
              (if recompressed ext b i = [] then None else Some (recompressed ext b i)))
    \<and> b_diskdb b' = StoreBloomTrieRoot (b_diskdb b) (b_section b)
                       (b_sectionHeads b ! unat (b_bloomTrieRatio b - 1)) root
    \<and> (length (b_sectionHeads b) = unat (b_bloomTrieRatio b)
         \<longrightarrow> b_sectionHeads b ! unat (b_bloomTrieRatio b - 1) = last (b_sectionHeads b))"
proof -
  from BloomCommit_Ok_D [OF assms] obtain tr0 tr root tdb res tdb' where
    t0: "b_trie b = Some tr0"
    and cb: "commitBits ext b [0..<BloomBitLength] (Some tr0) = (Ok, Some tr)"
    and tc: "trie_Commit ext tr (b_triedb b) = (Inr root, tdb)"
    and lt: "unat (b_bloomTrieRatio b - 1) < length (b_sectionHeads b)"
    and b': "b' = b\<lparr>b_trie := Some tr, b_triedb := tdb',
              b_diskdb := StoreBloomTrieRoot (b_diskdb b) (b_section b)
                            (b_sectionHeads b ! unat (b_bloomTrieRatio b - 1)) root\<rparr>"
    by blast
  from cb have segs: "\<forall>i\<in>set [0..<BloomBitLength]. \<forall>j<unat (b_bloomTrieRatio b).
         j < length (b_sectionHeads b) \<and> segment ext b i j \<noteq> None"
    and tr: "tr = foldl (writeLeaf ext b) tr0 [0..<BloomBitLength]"
    by (simp_all add: commitBits_Ok_iff)
  have small: "\<forall>i\<in>set [0..<BloomBitLength]. i < 65536"
    by (simp add: BloomBitLength_def)
  have leaves: "\<forall>i<BloomBitLength.
          (\<forall>j<unat (b_bloomTrieRatio b). segment ext b i j \<noteq> None)
          \<and> tr (PutUint16 (of_nat i) @ PutUint64 (b_section b)) =
              (if recompressed ext b i = [] then None else Some (recompressed ext b i))"
  proof (intro allI impI conjI)
    fix i j
    assume "i < BloomBitLength" and "j < unat (b_bloomTrieRatio b)"
    with segs show "segment ext b i j \<noteq> None"
      by simp
  next
    fix i
    assume "i < BloomBitLength"
    then have "i \<in> set [0..<BloomBitLength]"
      by simp
    with foldl_writeLeaf_at [OF distinct_upt small, of i ext b tr0] tr
    show "tr (PutUint16 (of_nat i) @ PutUint64 (b_section b)) =
              (if recompressed ext b i = [] then None else Some (recompressed ext b i))"
      by (simp add: bloomKey_def)
  qed
  have lastp: "length (b_sectionHeads b) = unat (b_bloomTrieRatio b)
         \<longrightarrow> b_sectionHeads b ! unat (b_bloomTrieRatio b - 1) = last (b_sectionHeads b)"
  proof
    assume len: "length (b_sectionHeads b) = unat (b_bloomTrieRatio b)"
    have nz: "b_bloomTrieRatio b \<noteq> 0"
    proof
      assume "b_bloomTrieRatio b = 0"
      with lt len show False by simp
    qed
    then have "unat (b_bloomTrieRatio b - 1) = unat (b_bloomTrieRatio b) - 1"
      by (simp add: unat_minus_one)
    moreover have "b_sectionHeads b \<noteq> []"
      using lt by auto
    ultimately show "b_sectionHeads b ! unat (b_bloomTrieRatio b - 1) = last (b_sectionHeads b)"
      using len by (simp add: last_conv_nth)
  qed
  show ?thesis
    using tc leaves lastp by (intro exI [of _ tr] exI [of _ root] exI [of _ tdb]) (simp add: b')
qed

lemma BloomCommit_Ok_I:
  assumes "b_trie b = Some tr0"
    and "commitBits ext b [0..<BloomBitLength] (Some tr0) = (Ok, Some tr)"
    and "trie_Commit ext tr (b_triedb b) = (Inr root, tdb)"
    and "triedb_Commit ext tdb root = (res, tdb')"
    and "unat (b_bloomTrieRatio b - 1) < length (b_sectionHeads b)"
  shows "BloomCommit ext b =
      (Ok, b\<lparr>b_trie := Some tr, b_triedb := tdb',
              b_diskdb := StoreBloomTrieRoot (b_diskdb b) (b_section b)
                            (b_sectionHeads b ! unat (b_bloomTrieRatio b - 1)) root\<rparr>)"
  using assms by (simp add: BloomCommit_def)

lemma sample_segments:
  "\<forall>i\<in>set ks. \<forall>j<unat (b_bloomTrieRatio sample_bloom).
     j < length (b_sectionHeads sample_bloom) \<and> segment ext' sample_bloom i j \<noteq> None"
  if "ReadBloomBits ext' = ReadBloomBits sample_ext" and "DecompressBytes ext' = DecompressBytes sample_ext"
  using that by (simp add: segment_def sample_ext_def sample_bloom_def)

lemma sample_BloomCommit:
  "BloomCommit sample_ext sample_bloom =
     (Ok, sample_bloom\<lparr>b_trie := Some (foldl (writeLeaf sample_ext sample_bloom) Map.empty [0..<BloomBitLength]),
                        b_triedb := [7],
                        b_diskdb := StoreBloomTrieRoot Map.empty 0 8 7\<rparr>)"
proof -
  have cb: "commitBits sample_ext sample_bloom [0..<BloomBitLength] (Some Map.empty)
      = (Ok, Some (foldl (writeLeaf sample_ext sample_bloom) Map.empty [0..<BloomBitLength]))"
    using sample_segments [of sample_ext "[0..<BloomBitLength]"] by (simp add: commitBits_Ok_iff)
  have t0: "b_trie sample_bloom = Some Map.empty"
    by (simp add: sample_bloom_def)
  have tc: "trie_Commit sample_ext (foldl (writeLeaf sample_ext sample_bloom) Map.empty [0..<BloomBitLength])
      (b_triedb sample_bloom) = (Inr 7, [])"
    by (simp add: sample_ext_def sample_bloom_def)
  have dc: "triedb_Commit sample_ext [] 7 = (None, [7])"
    by (simp add: sample_ext_def)
  have lt: "unat (b_bloomTrieRatio sample_bloom - 1) < length (b_sectionHeads sample_bloom)"
    by (simp add: sample_bloom_def)
  show ?thesis
    using BloomCommit_Ok_I [OF t0 cb tc dc lt] by (simp add: sample_bloom_def)
qed

theorem BloomCommit_leaves_witness:
  "fst (BloomCommit sample_ext sample_bloom) = Ok
   \<and> (\<exists>tr. b_trie (snd (BloomCommit sample_ext sample_bloom)) = Some tr
        \<and> tr (PutUint16 3 @ PutUint64 0) = Some [1, 1, 1, 1, 1, 1, 1, 1]
        \<and> tr (PutUint16 0 @ PutUint64 0) = None)
   \<and> GetBloomTrieRoot (b_diskdb (snd (BloomCommit sample_ext sample_bloom))) 0 8 = 7"
proof -
  obtain b' where ok: "BloomCommit sample_ext sample_bloom = (Ok, b')"
    using sample_BloomCommit by simp
  from BloomCommit_leaves [OF ok] obtain tr root tdb where
    tr: "b_trie b' = Some tr"
    and tc: "trie_Commit sample_ext tr (b_triedb sample_bloom) = (Inr root, tdb)"
    and leaves: "\<forall>i<BloomBitLength.
          (\<forall>j<unat (b_bloomTrieRatio sample_bloom). segment sample_ext sample_bloom i j \<noteq> None)
          \<and> tr (PutUint16 (of_nat i) @ PutUint64 (b_section sample_bloom)) =
              (if recompressed sample_ext sample_bloom i = [] then None
               else Some (recompressed sample_ext sample_bloom i))"
    and db: "b_diskdb b' = StoreBloomTrieRoot (b_diskdb sample_bloom) (b_section sample_bloom)
                       (b_sectionHeads sample_bloom ! unat (b_bloomTrieRatio sample_bloom - 1)) root"
    by blast
  have root: "root = 7"
    using tc by (simp add: sample_ext_def)
  have r3: "recompressed sample_ext sample_bloom 3 = [1, 1, 1, 1, 1, 1, 1, 1]"
    by (simp add: recompressed_def column_def segments_of_def segment_def sample_ext_def
        sample_bloom_def upt_rec)
  have r0: "recompressed sample_ext sample_bloom 0 = []"
    by (simp add: recompressed_def column_def segments_of_def segment_def sample_ext_def
        sample_bloom_def upt_rec)
  have l3: "tr (PutUint16 3 @ PutUint64 0) = Some [1, 1, 1, 1, 1, 1, 1, 1]"
    using leaves [rule_format, of 3] r3 by (simp add: BloomBitLength_def sample_bloom_def)
  have l0: "tr (PutUint16 0 @ PutUint64 0) = None"
    using leaves [rule_format, of 0] r0 by (simp add: BloomBitLength_def sample_bloom_def)
  have g: "GetBloomTrieRoot (b_diskdb b') 0 8 = 7"
    using db root by (simp add: sample_bloom_def Get_Store_BloomTrieRoot)
  show ?thesis
    using ok tr l3 l0 g by simp
qed

lemma BloomCommit_failure_writes_no_root:
  "fst (BloomCommit ext b) \<noteq> Ok \<Longrightarrow> b_diskdb (snd (BloomCommit ext b)) = b_diskdb b"
  by (auto simp: BloomCommit_def Let_def
      split: option.splits prod.splits sum.splits status.splits if_splits)

subsection \<open>A failed write of the trie nodes\<close>

text \<open>
  Claim C3 asks that \<^verbatim>\<open>Commit\<close> return an error and write no root record also when
  persisting the committed trie nodes fails. Both backends call
  \<^verbatim>\<open>triedb.Commit(root, false)\<close> without looking at its result: in the sample
  environment whose node write fails, \<^verbatim>\<open>Commit\<close> of either backend returns normally,
  no root is listed as persisted in the node database, and the root record is in the
  database.
\<close>

theorem Commit_ignores_failed_node_write:
  "triedb_Commit failing_ext [] 7 = (Some ''write failed'', [])
   \<and> ChtCommit failing_ext sample_cht = (Ok, sample_cht\<lparr>c_diskdb := StoreChtRoot Map.empty 0 9 7\<rparr>)
   \<and> c_triedb (snd (ChtCommit failing_ext sample_cht)) = []
   \<and> GetChtRoot (c_diskdb (snd (ChtCommit failing_ext sample_cht))) 0 9 = 7
   \<and> fst (BloomCommit failing_ext sample_bloom) = Ok
   \<and> b_triedb (snd (BloomCommit failing_ext sample_bloom)) = []
   \<and> GetBloomTrieRoot (b_diskdb (snd (BloomCommit failing_ext sample_bloom))) 0 8 = 7"
proof -
  have f: "triedb_Commit failing_ext [] 7 = (Some ''write failed'', [])"
    by (simp add: failing_ext_def)
  have c: "ChtCommit failing_ext sample_cht = (Ok, sample_cht\<lparr>c_diskdb := StoreChtRoot Map.empty 0 9 7\<rparr>)"
    by (simp add: ChtCommit_def failing_ext_def sample_ext_def sample_cht_def)
  have cb: "commitBits failing_ext sample_bloom [0..<BloomBitLength] (Some Map.empty)
      = (Ok, Some (foldl (writeLeaf failing_ext sample_bloom) Map.empty [0..<BloomBitLength]))"
    using sample_segments [of failing_ext "[0..<BloomBitLength]"]
    by (simp add: commitBits_Ok_iff failing_ext_def)
  have t0: "b_trie sample_bloom = Some Map.empty"
    by (simp add: sample_bloom_def)
  have tc: "trie_Commit failing_ext (foldl (writeLeaf failing_ext sample_bloom) Map.empty [0..<BloomBitLength])
      (b_triedb sample_bloom) = (Inr 7, [])"
    by (simp add: failing_ext_def sample_ext_def sample_bloom_def)
  have lt: "unat (b_bloomTrieRatio sample_bloom - 1) < length (b_sectionHeads sample_bloom)"
    by (simp add: sample_bloom_def)
  have b: "BloomCommit failing_ext sample_bloom =
     (Ok, sample_bloom\<lparr>b_trie := Some (foldl (writeLeaf failing_ext sample_bloom) Map.empty [0..<BloomBitLength]),
                        b_diskdb := StoreBloomTrieRoot Map.empty 0 8 7\<rparr>)"
    using BloomCommit_Ok_I [OF t0 cb tc f lt] by (simp add: sample_bloom_def)
  have c2: "c_triedb (snd (ChtCommit failing_ext sample_cht)) = []"
    unfolding c by (simp add: sample_cht_def)
  have c3: "GetChtRoot (c_diskdb (snd (ChtCommit failing_ext sample_cht))) 0 9 = 7"
    by (simp add: c Get_Store_ChtRoot)
  have b1: "fst (BloomCommit failing_ext sample_bloom) = Ok"
    by (simp add: b)
  have b2: "b_triedb (snd (BloomCommit failing_ext sample_bloom)) = []"
    unfolding b by (simp add: sample_bloom_def)
  have b3: "GetBloomTrieRoot (b_diskdb (snd (BloomCommit failing_ext sample_bloom))) 0 8 = 7"
    by (simp add: b Get_Store_BloomTrieRoot)
  show ?thesis
    by (intro conjI f c c2 c3 b1 b2 b3)
qed

subsection \<open>Runs and the state carried across Reset\<close>

lemma ChtReset_agree:
  assumes "c_diskdb x = c_diskdb y" and "c_triedb x = c_triedb y"
  shows "fst (ChtReset ext x s h) = fst (ChtReset ext y s h)
    \<and> cht_agree ((snd (ChtReset ext x s h))\<lparr>c_lastHash := l\<rparr>) ((snd (ChtReset ext y s h))\<lparr>c_lastHash := l\<rparr>)
    \<and> c_lastHash (snd (ChtReset ext x s h)) = c_lastHash x
    \<and> c_lastHash (snd (ChtReset ext y s h)) = c_lastHash y"
  using assms by (simp add: ChtReset_def cht_agree_def Let_def split: sum.split)

lemma ChtProcess_agree:
  assumes "cht_agree (x\<lparr>c_lastHash := l\<rparr>) (y\<lparr>c_lastHash := l\<rparr>)"
  shows "fst (ChtProcess ext x hdr) = fst (ChtProcess ext y hdr)
    \<and> cht_agree (snd (ChtProcess ext x hdr)) (snd (ChtProcess ext y hdr))"
  using assms by (simp add: ChtProcess_def cht_agree_def Let_def split: option.split)

lemma cht_agree_lastHash: "cht_agree x y \<Longrightarrow> cht_agree (x\<lparr>c_lastHash := l\<rparr>) (y\<lparr>c_lastHash := l\<rparr>)"
  by (simp add: cht_agree_def)

lemma ChtProcessAll_agree:
  "cht_agree x y \<Longrightarrow>
     fst (ChtProcessAll ext x hs) = fst (ChtProcessAll ext y hs)
     \<and> cht_agree (snd (ChtProcessAll ext x hs)) (snd (ChtProcessAll ext y hs))"
proof (induction hs arbitrary: x y)
  case Nil
  then show ?case by simp
next
  case (Cons hdr hs)
  obtain st x' where px: "ChtProcess ext x hdr = (st, x')"
    by (cases "ChtProcess ext x hdr")
  obtain st' y' where py: "ChtProcess ext y hdr = (st', y')"
    by (cases "ChtProcess ext y hdr")
  from ChtProcess_agree [OF cht_agree_lastHash [OF Cons.prems], of ext hdr] px py
  have eq: "st' = st" and ag: "cht_agree x' y'"
    by simp_all
  show ?case
  proof (cases st)
    case Ok
    with px py eq Cons.IH [OF ag] show ?thesis by simp
  next
    case Panic
    with px py eq ag show ?thesis by simp
  next
    case (Failed e)
    with px py eq ag show ?thesis by simp
  qed
qed

lemma ChtProcessAll_agree_nonempty:
  assumes "cht_agree (x\<lparr>c_lastHash := l\<rparr>) (y\<lparr>c_lastHash := l\<rparr>)" and "hs \<noteq> []"
  shows "fst (ChtProcessAll ext x hs) = fst (ChtProcessAll ext y hs)
     \<and> cht_agree (snd (ChtProcessAll ext x hs)) (snd (ChtProcessAll ext y hs))"
proof -
  from assms(2) obtain hdr rest where hs: "hs = hdr # rest"
    by (cases hs) auto
  obtain st x' where px: "ChtProcess ext x hdr = (st, x')"
    by (cases "ChtProcess ext x hdr")
  obtain st' y' where py: "ChtProcess ext y hdr = (st', y')"
    by (cases "ChtProcess ext y hdr")
  from ChtProcess_agree [OF assms(1), of ext hdr] px py
  have eq: "st' = st" and ag: "cht_agree x' y'"
    by simp_all
  show ?thesis
  proof (cases st)
    case Ok
    with px py eq ChtProcessAll_agree [OF ag, of ext rest] hs show ?thesis by simp
  next
    case Panic
    with px py eq ag hs show ?thesis by simp
  next
    case (Failed e)
    with px py eq ag hs show ?thesis by simp
  qed
qed

lemma ChtCommit_agree:
  "cht_agree x y \<Longrightarrow>
     fst (ChtCommit ext x) = fst (ChtCommit ext y)
     \<and> c_diskdb (snd (ChtCommit ext x)) = c_diskdb (snd (ChtCommit ext y))
     \<and> c_triedb (snd (ChtCommit ext x)) = c_triedb (snd (ChtCommit ext y))"
  by (simp add: ChtCommit_def cht_agree_def split: option.split prod.split sum.split)

lemma ChtRun_agree:
  assumes d: "c_diskdb x = c_diskdb y" and t: "c_triedb x = c_triedb y"
    and l: "hs \<noteq> [] \<or> c_lastHash x = c_lastHash y"
  shows "fst (ChtRun ext x s h hs) = fst (ChtRun ext y s h hs)
     \<and> c_diskdb (snd (ChtRun ext x s h hs)) = c_diskdb (snd (ChtRun ext y s h hs))
     \<and> c_triedb (snd (ChtRun ext x s h hs)) = c_triedb (snd (ChtRun ext y s h hs))"
proof -
  obtain st x1 where rx: "ChtReset ext x s h = (st, x1)"
    by (cases "ChtReset ext x s h")
  obtain st' y1 where ry: "ChtReset ext y s h = (st', y1)"
    by (cases "ChtReset ext y s h")
  from ChtReset_agree [OF d t, of ext s h] rx ry
  have eq: "st' = st" and ag: "\<And>l. cht_agree (x1\<lparr>c_lastHash := l\<rparr>) (y1\<lparr>c_lastHash := l\<rparr>)"
    and lx: "c_lastHash x1 = c_lastHash x" and ly: "c_lastHash y1 = c_lastHash y"
    by simp_all
  have ds: "c_diskdb x1 = c_diskdb y1 \<and> c_triedb x1 = c_triedb y1"
    using ag [of 0] by (simp add: cht_agree_def)
  have pa: "fst (ChtProcessAll ext x1 hs) = fst (ChtProcessAll ext y1 hs)
     \<and> cht_agree (snd (ChtProcessAll ext x1 hs)) (snd (ChtProcessAll ext y1 hs))"
  proof (cases "hs = []")
    case True
    with l lx ly have "c_lastHash x1 = c_lastHash y1" by simp
    with ag [of 0] have "cht_agree x1 y1" by (simp add: cht_agree_def)
    then show ?thesis by (rule ChtProcessAll_agree)
  next
    case False
    with ag [of 0] show ?thesis by (rule ChtProcessAll_agree_nonempty)
  qed
  obtain st2 x2 where px: "ChtProcessAll ext x1 hs = (st2, x2)"
    by (cases "ChtProcessAll ext x1 hs")
  obtain st2' y2 where py: "ChtProcessAll ext y1 hs = (st2', y2)"
    by (cases "ChtProcessAll ext y1 hs")
  from pa px py have eq2: "st2' = st2" and ag2: "cht_agree x2 y2"
    by simp_all
  have ds2: "c_diskdb x2 = c_diskdb y2 \<and> c_triedb x2 = c_triedb y2"
    using ag2 by (simp add: cht_agree_def)
  show ?thesis
  proof (cases st)
    case Ok
    show ?thesis
    proof (cases st2)
      case Ok
      with \<open>st = Ok\<close> rx ry eq px py eq2 ChtCommit_agree [OF ag2, of ext] show ?thesis
        by (simp add: ChtRun_def)
    next
      case Panic
      with \<open>st = Ok\<close> rx ry eq px py eq2 ds2 show ?thesis
        by (simp add: ChtRun_def)
    next
      case (Failed e)
      with \<open>st = Ok\<close> rx ry eq px py eq2 ds2 show ?thesis
        by (simp add: ChtRun_def)
    qed
  next
    case Panic
    with rx ry eq ds show ?thesis by (simp add: ChtRun_def)
  next
    case (Failed e)
    with rx ry eq ds show ?thesis by (simp add: ChtRun_def)
  qed
qed

lemma bloom_agree_mono: "bloom_agree D x y \<Longrightarrow> D \<subseteq> E \<Longrightarrow> bloom_agree E x y"
  by (auto simp: bloom_agree_def)

lemma bloom_agree_empty:
  fixes x y :: "'tdb BloomTrieIndexerBackend"
  assumes "bloom_agree {} x y"
  shows "x = y"
proof -
  from assms have "b_sectionHeads x = b_sectionHeads y"
    by (auto simp: bloom_agree_def intro: nth_equalityI)
  with assms show ?thesis
    by (simp add: bloom_agree_def)
qed

lemma BloomReset_agree:
  fixes x y :: "'tdb BloomTrieIndexerBackend"
  assumes "b_diskdb x = b_diskdb y" and "b_triedb x = b_triedb y"
    and "b_parentSectionSize x = b_parentSectionSize y"
    and "b_bloomTrieRatio x = b_bloomTrieRatio y"
    and "length (b_sectionHeads x) = length (b_sectionHeads y)"
    and "\<forall>j<length (b_sectionHeads x). j \<in> D \<or> b_sectionHeads x ! j = b_sectionHeads y ! j"
  shows "fst (BloomReset ext x s h) = fst (BloomReset ext y s h)
    \<and> bloom_agree D (snd (BloomReset ext x s h)) (snd (BloomReset ext y s h))
    \<and> b_section (snd (BloomReset ext x s h)) = s
    \<and> b_parentSectionSize (snd (BloomReset ext x s h)) = b_parentSectionSize x"
  using assms by (simp add: BloomReset_def bloom_agree_def Let_def split: sum.split)

lemma BloomProcess_agree:
  assumes "bloom_agree D x y"
  shows "fst (BloomProcess ext x hdr) = fst (BloomProcess ext y hdr)
    \<and> bloom_agree D (snd (BloomProcess ext x hdr)) (snd (BloomProcess ext y hdr))
    \<and> (fst (BloomProcess ext x hdr) = Ok \<longrightarrow>
         bloom_agree (D - {j. subsectionIndex (b_section x) (b_parentSectionSize x) hdr = Some j})
           (snd (BloomProcess ext x hdr)) (snd (BloomProcess ext y hdr)))
    \<and> b_section (snd (BloomProcess ext x hdr)) = b_section x
    \<and> b_parentSectionSize (snd (BloomProcess ext x hdr)) = b_parentSectionSize x"
  using assms
  by (auto simp: BloomProcess_def bloom_agree_def subsectionIndex_def Let_def nth_list_update)

lemma BloomProcessAll_agree:
  "bloom_agree D x y \<Longrightarrow>
     fst (BloomProcessAll ext x hs) = fst (BloomProcessAll ext y hs)
     \<and> bloom_agree D (snd (BloomProcessAll ext x hs)) (snd (BloomProcessAll ext y hs))
     \<and> (fst (BloomProcessAll ext x hs) = Ok \<longrightarrow>
          bloom_agree
            (D - {j. \<exists>hdr\<in>set hs. subsectionIndex (b_section x) (b_parentSectionSize x) hdr = Some j})
            (snd (BloomProcessAll ext x hs)) (snd (BloomProcessAll ext y hs)))"
proof (induction hs arbitrary: x y D)
  case Nil
  then show ?case by simp
next
  case (Cons hdr hs)
  obtain st x' where px: "BloomProcess ext x hdr = (st, x')"
    by (cases "BloomProcess ext x hdr")
  obtain st' y' where py: "BloomProcess ext y hdr = (st', y')"
    by (cases "BloomProcess ext y hdr")
  let ?W = "{j. subsectionIndex (b_section x) (b_parentSectionSize x) hdr = Some j}"
  from BloomProcess_agree [OF Cons.prems, where ext = ext and hdr = hdr] px py
  have eq: "st' = st" and ag: "bloom_agree D x' y'"
    and ok: "st = Ok \<longrightarrow> bloom_agree (D - ?W) x' y'"
    and sec: "b_section x' = b_section x" and psz: "b_parentSectionSize x' = b_parentSectionSize x"
    by simp_all
  show ?case
  proof (cases st)
    case Ok
    with ok have ag': "bloom_agree (D - ?W) x' y'"
      by simp
    have sub: "D - ?W \<subseteq> D"
      by blast
    have set_eq: "D - ?W - {j. \<exists>hdr\<in>set hs. subsectionIndex (b_section x) (b_parentSectionSize x) hdr = Some j}
        = D - {j. \<exists>hdr\<in>set (hdr # hs). subsectionIndex (b_section x) (b_parentSectionSize x) hdr = Some j}"
      by auto
    note ih = Cons.IH [OF ag', unfolded sec psz set_eq]
    from ih have i1: "fst (BloomProcessAll ext x' hs) = fst (BloomProcessAll ext y' hs)"
      and i2: "bloom_agree (D - ?W) (snd (BloomProcessAll ext x' hs)) (snd (BloomProcessAll ext y' hs))"
      and i3: "fst (BloomProcessAll ext x' hs) = Ok \<longrightarrow>
          bloom_agree (D - {j. \<exists>hdr\<in>set (hdr # hs). subsectionIndex (b_section x) (b_parentSectionSize x) hdr = Some j})
            (snd (BloomProcessAll ext x' hs)) (snd (BloomProcessAll ext y' hs))"
      by blast+
    from i2 sub have i2m: "bloom_agree D (snd (BloomProcessAll ext x' hs)) (snd (BloomProcessAll ext y' hs))"
      by (rule bloom_agree_mono)
    have rx: "BloomProcessAll ext x (hdr # hs) = BloomProcessAll ext x' hs"
      using px Ok by simp
    have ry: "BloomProcessAll ext y (hdr # hs) = BloomProcessAll ext y' hs"
      using py eq Ok by simp
    show ?thesis
      unfolding rx ry using i1 i2m i3 by blast
  next
    case Panic
    with px py eq ag show ?thesis by simp
  next
    case (Failed e)
    with px py eq ag show ?thesis by simp
  qed
qed

lemma BloomRun_agree:
  fixes x y :: "'tdb BloomTrieIndexerBackend"
  assumes "b_diskdb x = b_diskdb y" and "b_triedb x = b_triedb y"
    and "b_parentSectionSize x = b_parentSectionSize y"
    and "b_bloomTrieRatio x = b_bloomTrieRatio y"
    and "length (b_sectionHeads x) = length (b_sectionHeads y)"
    and ow: "\<forall>j<length (b_sectionHeads x).
          b_sectionHeads x ! j = b_sectionHeads y ! j
          \<or> (\<exists>hdr\<in>set hs. subsectionIndex s (b_parentSectionSize x) hdr = Some j)"
  shows "fst (BloomRun ext x s h hs) = fst (BloomRun ext y s h hs)
     \<and> b_diskdb (snd (BloomRun ext x s h hs)) = b_diskdb (snd (BloomRun ext y s h hs))
     \<and> b_triedb (snd (BloomRun ext x s h hs)) = b_triedb (snd (BloomRun ext y s h hs))"
proof -
  let ?D = "{j. \<exists>hdr\<in>set hs. subsectionIndex s (b_parentSectionSize x) hdr = Some j}"
  have ow': "\<forall>j<length (b_sectionHeads x). j \<in> ?D \<or> b_sectionHeads x ! j = b_sectionHeads y ! j"
    using ow by blast
  obtain st x1 where rx: "BloomReset ext x s h = (st, x1)"
    by (cases "BloomReset ext x s h")
  obtain st' y1 where ry: "BloomReset ext y s h = (st', y1)"
    by (cases "BloomReset ext y s h")
  from BloomReset_agree [OF assms(1-5) ow', where ext = ext and s = s and h = h] rx ry
  have eq: "st' = st" and ag: "bloom_agree ?D x1 y1"
    and sec: "b_section x1 = s" and psz: "b_parentSectionSize x1 = b_parentSectionSize x"
    by simp_all
  have ds: "b_diskdb x1 = b_diskdb y1 \<and> b_triedb x1 = b_triedb y1"
    using ag by (simp add: bloom_agree_def)
  obtain st2 x2 where px: "BloomProcessAll ext x1 hs = (st2, x2)"
    by (cases "BloomProcessAll ext x1 hs")
  obtain st2' y2 where py: "BloomProcessAll ext y1 hs = (st2', y2)"
    by (cases "BloomProcessAll ext y1 hs")
  from BloomProcessAll_agree [OF ag, where ext = ext and hs = hs] px py
  have eq2: "st2' = st2" and ag2: "bloom_agree ?D x2 y2"
    and ok2: "st2 = Ok \<longrightarrow> bloom_agree (?D - ?D) x2 y2"
    by (simp_all add: sec psz)
  have ds2: "b_diskdb x2 = b_diskdb y2 \<and> b_triedb x2 = b_triedb y2"
    using ag2 by (simp add: bloom_agree_def)
  show ?thesis
  proof (cases st)
    case Ok
    show ?thesis
    proof (cases st2)
      case Ok
      with ok2 have "bloom_agree {} x2 y2"
        by simp
      then have "x2 = y2"
        by (rule bloom_agree_empty)
      with \<open>st = Ok\<close> Ok rx ry eq px py eq2 show ?thesis
        by (simp add: BloomRun_def)
    next
      case Panic
      with \<open>st = Ok\<close> rx ry eq px py eq2 ds2 show ?thesis
        by (simp add: BloomRun_def)
    next
      case (Failed e)
      with \<open>st = Ok\<close> rx ry eq px py eq2 ds2 show ?thesis
        by (simp add: BloomRun_def)
    qed
  next
    case Panic
    with rx ry eq ds show ?thesis by (simp add: BloomRun_def)
  next
    case (Failed e)
    with rx ry eq ds show ?thesis by (simp add: BloomRun_def)
  qed
qed

text \<open>
  Claim C1, as amended. Two runs of \<^verbatim>\<open>Reset\<close>, \<^verbatim>\<open>Process\<close> for each header of the
  same sequence, \<^verbatim>\<open>Commit\<close> on two backends over the same database and trie node
  database (and, for the BloomTrie, with the same \<^verbatim>\<open>parentSectionSize\<close> and
  \<^verbatim>\<open>bloomTrieRatio\<close>) end the same way and leave the same database (so the same root
  records and root hashes) and the same trie node database, provided that what
  \<^verbatim>\<open>Reset\<close> carries over is equal in both backends or overwritten by the run: the last
  hash of the CHT backends is equal or a header is processed; every entry of the
  sub-section-head arrays (of equal length) of the BloomTrie backends is equal or recorded
  by a header of the sequence. An earlier section, trie and section size never matter.
\<close>

theorem runs_agree_when_carried_state_is_overwritten:
  fixes c c' :: "'tdb ChtIndexerBackend" and b b' :: "'tdb BloomTrieIndexerBackend"
  assumes "c_diskdb c = c_diskdb c'" and "c_triedb c = c_triedb c'"
    and "headers \<noteq> [] \<or> c_lastHash c = c_lastHash c'"
    and "b_diskdb b = b_diskdb b'" and "b_triedb b = b_triedb b'"
    and "b_parentSectionSize b = b_parentSectionSize b'"
    and "b_bloomTrieRatio b = b_bloomTrieRatio b'"
    and "length (b_sectionHeads b) = length (b_sectionHeads b')"
    and "\<forall>j<length (b_sectionHeads b).
           b_sectionHeads b ! j = b_sectionHeads b' ! j
           \<or> (\<exists>hdr\<in>set headers. subsectionIndex s (b_parentSectionSize b) hdr = Some j)"
  shows "fst (ChtRun ext c s h headers) = fst (ChtRun ext c' s h headers)
    \<and> c_diskdb (snd (ChtRun ext c s h headers)) = c_diskdb (snd (ChtRun ext c' s h headers))
    \<and> c_triedb (snd (ChtRun ext c s h headers)) = c_triedb (snd (ChtRun ext c' s h headers))
    \<and> GetChtRoot (c_diskdb (snd (ChtRun ext c s h headers))) s' h'
        = GetChtRoot (c_diskdb (snd (ChtRun ext c' s h headers))) s' h'
    \<and> fst (BloomRun ext b s h headers) = fst (BloomRun ext b' s h headers)
    \<and> b_diskdb (snd (BloomRun ext b s h headers)) = b_diskdb (snd (BloomRun ext b' s h headers))
    \<and> b_triedb (snd (BloomRun ext b s h headers)) = b_triedb (snd (BloomRun ext b' s h headers))
    \<and> GetBloomTrieRoot (b_diskdb (snd (BloomRun ext b s h headers))) s' h'
        = GetBloomTrieRoot (b_diskdb (snd (BloomRun ext b' s h headers))) s' h'"
  using ChtRun_agree [OF assms(1,2,3), of ext s h]
    BloomRun_agree [OF assms(4-9), where ext = ext and h = h]
  by simp

lemma sample_shaped_BloomCommit:
  assumes "b_trie b = Some tr0" and "b_bloomTrieRatio b = 8" and "length (b_sectionHeads b) = 8"
  shows "BloomCommit sample_ext b =
      (Ok, b\<lparr>b_trie := Some (foldl (writeLeaf sample_ext b) tr0 [0..<BloomBitLength]),
              b_triedb := 7 # b_triedb b,
              b_diskdb := StoreBloomTrieRoot (b_diskdb b) (b_section b) (b_sectionHeads b ! 7) 7\<rparr>)"
proof -
  have "\<forall>i\<in>set [0..<BloomBitLength]. \<forall>j<unat (b_bloomTrieRatio b).
      j < length (b_sectionHeads b) \<and> segment sample_ext b i j \<noteq> None"
    using assms(2,3) by (simp add: segment_def sample_ext_def)
  then have cb: "commitBits sample_ext b [0..<BloomBitLength] (Some tr0)
      = (Ok, Some (foldl (writeLeaf sample_ext b) tr0 [0..<BloomBitLength]))"
    by (simp add: commitBits_Ok_iff)
  have tc: "trie_Commit sample_ext (foldl (writeLeaf sample_ext b) tr0 [0..<BloomBitLength]) (b_triedb b)
      = (Inr 7, b_triedb b)"
    by (simp add: sample_ext_def)
  have dc: "triedb_Commit sample_ext (b_triedb b) 7 = (None, 7 # b_triedb b)"
    by (simp add: sample_ext_def)
  have lt: "unat (b_bloomTrieRatio b - 1) < length (b_sectionHeads b)"
    using assms(2,3) by simp
  show ?thesis
    using BloomCommit_Ok_I [OF assms(1) cb tc dc lt] assms(2) by simp
qed

lemma sample_BloomRun_no_boundary:
  assumes "b_diskdb b = Map.empty" and "b_parentSectionSize b = 4096" and "b_bloomTrieRatio b = 8"
    and "length (b_sectionHeads b) = 8"
  shows "fst (BloomRun sample_ext b 0 0 [\<lparr>HeaderHash = 6, Number = 0\<rparr>]) = Ok
    \<and> b_diskdb (snd (BloomRun sample_ext b 0 0 [\<lparr>HeaderHash = 6, Number = 0\<rparr>]))
        = StoreBloomTrieRoot Map.empty 0 (b_sectionHeads b ! 7) 7"
proof -
  let ?b1 = "b\<lparr>b_trie := Some Map.empty, b_section := 0\<rparr>"
  have "BloomRun sample_ext b 0 0 [\<lparr>HeaderHash = 6, Number = 0\<rparr>] = BloomCommit sample_ext ?b1"
    using assms(2)
    by (simp add: BloomRun_def BloomReset_def BloomProcess_def sample_ext_def Uint64_def
        BloomTrieFrequency_def)
  moreover have "BloomCommit sample_ext ?b1 =
      (Ok, ?b1\<lparr>b_trie := Some (foldl (writeLeaf sample_ext ?b1) Map.empty [0..<BloomBitLength]),
              b_triedb := 7 # b_triedb ?b1,
              b_diskdb := StoreBloomTrieRoot (b_diskdb ?b1) (b_section ?b1) (b_sectionHeads ?b1 ! 7) 7\<rparr>)"
    by (rule sample_shaped_BloomCommit) (simp_all add: assms)
  ultimately show ?thesis
    using assms(1) by simp
qed

text \<open>
  Without that proviso the runs differ. \<^verbatim>\<open>Reset\<close> clears neither \<^verbatim>\<open>lastHash\<close> nor
  \<^verbatim>\<open>sectionHeads\<close>: over the same storage and the same headers, a BloomTrie backend
  with the heads of an earlier section stores the root under the head 8 where one with
  zero heads stores it under the zero head, and with no header a CHT backend stores the
  root under the last hash it happens to hold.
\<close>

theorem stale_carried_state_changes_root_records:
  "b_diskdb sample_bloom = b_diskdb (sample_bloom\<lparr>b_sectionHeads := [0, 0, 0, 0, 0, 0, 0, 0]\<rparr>)
   \<and> b_triedb sample_bloom = b_triedb (sample_bloom\<lparr>b_sectionHeads := [0, 0, 0, 0, 0, 0, 0, 0]\<rparr>)
   \<and> fst (BloomRun sample_ext sample_bloom 0 0 [\<lparr>HeaderHash = 6, Number = 0\<rparr>]) = Ok
   \<and> fst (BloomRun sample_ext (sample_bloom\<lparr>b_sectionHeads := [0, 0, 0, 0, 0, 0, 0, 0]\<rparr>) 0 0
          [\<lparr>HeaderHash = 6, Number = 0\<rparr>]) = Ok
   \<and> GetBloomTrieRoot (b_diskdb (snd (BloomRun sample_ext sample_bloom 0 0
          [\<lparr>HeaderHash = 6, Number = 0\<rparr>]))) 0 8 = 7
   \<and> GetBloomTrieRoot (b_diskdb (snd (BloomRun sample_ext
          (sample_bloom\<lparr>b_sectionHeads := [0, 0, 0, 0, 0, 0, 0, 0]\<rparr>) 0 0
          [\<lparr>HeaderHash = 6, Number = 0\<rparr>]))) 0 8 = 0
   \<and> c_diskdb sample_cht = c_diskdb (sample_cht\<lparr>c_lastHash := 77\<rparr>)
   \<and> c_triedb sample_cht = c_triedb (sample_cht\<lparr>c_lastHash := 77\<rparr>)
   \<and> fst (ChtRun sample_ext sample_cht 0 0 []) = Ok
   \<and> fst (ChtRun sample_ext (sample_cht\<lparr>c_lastHash := 77\<rparr>) 0 0 []) = Ok
   \<and> GetChtRoot (c_diskdb (snd (ChtRun sample_ext sample_cht 0 0 []))) 0 9 = 7
   \<and> GetChtRoot (c_diskdb (snd (ChtRun sample_ext (sample_cht\<lparr>c_lastHash := 77\<rparr>) 0 0 []))) 0 9 = 0"
proof -
  let ?z = "sample_bloom\<lparr>b_sectionHeads := [0, 0, 0, 0, 0, 0, 0, 0]\<rparr>"
  let ?hs = "[\<lparr>HeaderHash = 6, Number = 0\<rparr>]"
  have rb: "fst (BloomRun sample_ext sample_bloom 0 0 ?hs) = Ok"
    "b_diskdb (snd (BloomRun sample_ext sample_bloom 0 0 ?hs)) = StoreBloomTrieRoot Map.empty 0 8 7"
    using sample_BloomRun_no_boundary [of sample_bloom] by (simp_all add: sample_bloom_def)
  have rz: "fst (BloomRun sample_ext ?z 0 0 ?hs) = Ok"
    "b_diskdb (snd (BloomRun sample_ext ?z 0 0 ?hs)) = StoreBloomTrieRoot Map.empty 0 0 7"
    using sample_BloomRun_no_boundary [of ?z] by (simp_all add: sample_bloom_def)
  have gb: "GetBloomTrieRoot (b_diskdb (snd (BloomRun sample_ext sample_bloom 0 0 ?hs))) 0 8 = 7"
    by (simp add: rb Get_Store_BloomTrieRoot)
  have "GetBloomTrieRoot (StoreBloomTrieRoot Map.empty 0 0 7) 0 8 = GetBloomTrieRoot Map.empty 0 8"
    by (rule Get_Store_BloomTrieRoot_other) simp
  then have gz: "GetBloomTrieRoot (b_diskdb (snd (BloomRun sample_ext ?z 0 0 ?hs))) 0 8 = 0"
    by (simp add: rz GetBloomTrieRoot_eq)
  have rc: "ChtRun sample_ext sample_cht 0 0 []
      = (Ok, sample_cht\<lparr>c_triedb := [7], c_diskdb := StoreChtRoot Map.empty 0 9 7\<rparr>)"
    by (simp add: ChtRun_def ChtReset_def ChtCommit_def sample_ext_def sample_cht_def)
  have rs: "ChtRun sample_ext (sample_cht\<lparr>c_lastHash := 77\<rparr>) 0 0 []
      = (Ok, sample_cht\<lparr>c_lastHash := 77, c_triedb := [7], c_diskdb := StoreChtRoot Map.empty 0 77 7\<rparr>)"
    by (simp add: ChtRun_def ChtReset_def ChtCommit_def sample_ext_def sample_cht_def)
  have gc: "GetChtRoot (c_diskdb (snd (ChtRun sample_ext sample_cht 0 0 []))) 0 9 = 7"
    by (simp add: rc Get_Store_ChtRoot)
  have "GetChtRoot (StoreChtRoot Map.empty 0 77 7) 0 9 = GetChtRoot Map.empty 0 9"
    by (rule Get_Store_ChtRoot_other) simp
  then have gs: "GetChtRoot (c_diskdb (snd (ChtRun sample_ext (sample_cht\<lparr>c_lastHash := 77\<rparr>) 0 0 []))) 0 9 = 0"
    by (simp add: rs GetChtRoot_eq)
  have s1: "b_diskdb sample_bloom = b_diskdb ?z" and s2: "b_triedb sample_bloom = b_triedb ?z"
    and s3: "c_diskdb sample_cht = c_diskdb (sample_cht\<lparr>c_lastHash := 77\<rparr>)"
    and s4: "c_triedb sample_cht = c_triedb (sample_cht\<lparr>c_lastHash := 77\<rparr>)"
    by simp_all
  have oc: "fst (ChtRun sample_ext sample_cht 0 0 []) = Ok"
    by (simp add: rc)
  have os: "fst (ChtRun sample_ext (sample_cht\<lparr>c_lastHash := 77\<rparr>) 0 0 []) = Ok"
    by (simp add: rs)
  show ?thesis
    by (intro conjI s1 s2 rb(1) rz(1) gb gz s3 s4 oc os gc gs)
qed

theorem runs_agree_when_carried_state_is_overwritten_witness:
  "c_diskdb sample_cht
     = c_diskdb (sample_cht\<lparr>c_section := 5, c_sectionSize := 32768, c_lastHash := 77, c_trie := None\<rparr>)
   \<and> [\<lparr>HeaderHash = 6, Number = 4095\<rparr>] \<noteq> []
   \<and> length (b_sectionHeads sample_bloom)
       = length (b_sectionHeads (sample_bloom\<lparr>b_section := 3, b_trie := None,
                                   b_sectionHeads := [0, 2, 3, 4, 5, 6, 7, 8]\<rparr>))
   \<and> b_sectionHeads sample_bloom ! 0
       \<noteq> b_sectionHeads (sample_bloom\<lparr>b_section := 3, b_trie := None,
                                   b_sectionHeads := [0, 2, 3, 4, 5, 6, 7, 8]\<rparr>) ! 0
   \<and> subsectionIndex 0 (b_parentSectionSize sample_bloom) \<lparr>HeaderHash = 6, Number = 4095\<rparr> = Some 0
   \<and> fst (ChtRun sample_ext sample_cht 0 0 [\<lparr>HeaderHash = 6, Number = 4095\<rparr>]) = Ok
   \<and> fst (ChtRun sample_ext
        (sample_cht\<lparr>c_section := 5, c_sectionSize := 32768, c_lastHash := 77, c_trie := None\<rparr>)
        0 0 [\<lparr>HeaderHash = 6, Number = 4095\<rparr>]) = Ok
   \<and> GetChtRoot (c_diskdb (snd (ChtRun sample_ext
        (sample_cht\<lparr>c_section := 5, c_sectionSize := 32768, c_lastHash := 77, c_trie := None\<rparr>)
        0 0 [\<lparr>HeaderHash = 6, Number = 4095\<rparr>]))) 0 6 = 7
   \<and> fst (BloomRun sample_ext sample_bloom 0 0 [\<lparr>HeaderHash = 6, Number = 4095\<rparr>])
       = fst (BloomRun sample_ext
           (sample_bloom\<lparr>b_section := 3, b_trie := None, b_sectionHeads := [0, 2, 3, 4, 5, 6, 7, 8]\<rparr>)
           0 0 [\<lparr>HeaderHash = 6, Number = 4095\<rparr>])
   \<and> b_diskdb (snd (BloomRun sample_ext sample_bloom 0 0 [\<lparr>HeaderHash = 6, Number = 4095\<rparr>]))
       = b_diskdb (snd (BloomRun sample_ext
           (sample_bloom\<lparr>b_section := 3, b_trie := None, b_sectionHeads := [0, 2, 3, 4, 5, 6, 7, 8]\<rparr>)
           0 0 [\<lparr>HeaderHash = 6, Number = 4095\<rparr>]))"
proof -
  let ?c' = "sample_cht\<lparr>c_section := 5, c_sectionSize := 32768, c_lastHash := 77, c_trie := None\<rparr>"
  let ?b' = "sample_bloom\<lparr>b_section := 3, b_trie := None, b_sectionHeads := [0, 2, 3, 4, 5, 6, 7, 8]\<rparr>"
  let ?hs = "[\<lparr>HeaderHash = 6, Number = 4095\<rparr>]"
  have a1: "c_diskdb sample_cht = c_diskdb ?c'" and a2: "c_triedb sample_cht = c_triedb ?c'"
    by simp_all
  have ne: "?hs \<noteq> []"
    by simp
  then have a3: "?hs \<noteq> [] \<or> c_lastHash sample_cht = c_lastHash ?c'"
    by simp
  have a4: "b_diskdb sample_bloom = b_diskdb ?b'" and a5: "b_triedb sample_bloom = b_triedb ?b'"
    and a6: "b_parentSectionSize sample_bloom = b_parentSectionSize ?b'"
    and a7: "b_bloomTrieRatio sample_bloom = b_bloomTrieRatio ?b'"
    by simp_all
  have a8: "length (b_sectionHeads sample_bloom) = length (b_sectionHeads ?b')"
    by (simp add: sample_bloom_def)
  have d0: "b_sectionHeads sample_bloom ! 0 \<noteq> b_sectionHeads ?b' ! 0"
    by (simp add: sample_bloom_def)
  have ix: "subsectionIndex 0 (b_parentSectionSize sample_bloom) \<lparr>HeaderHash = 6, Number = 4095\<rparr> = Some 0"
    by (simp add: subsectionIndex_def sample_bloom_def Uint64_def BloomTrieFrequency_def)
  have a9: "\<forall>j<length (b_sectionHeads sample_bloom).
           b_sectionHeads sample_bloom ! j = b_sectionHeads ?b' ! j
           \<or> (\<exists>hdr\<in>set ?hs. subsectionIndex 0 (b_parentSectionSize sample_bloom) hdr = Some j)"
  proof (intro allI impI)
    fix j
    assume "j < length (b_sectionHeads sample_bloom)"
    show "b_sectionHeads sample_bloom ! j = b_sectionHeads ?b' ! j
           \<or> (\<exists>hdr\<in>set ?hs. subsectionIndex 0 (b_parentSectionSize sample_bloom) hdr = Some j)"
    proof (cases j)
      case 0
      with ix show ?thesis by simp
    next
      case (Suc k)
      then show ?thesis by (simp add: sample_bloom_def)
    qed
  qed
  note t = runs_agree_when_carried_state_is_overwritten [OF a1 a2 a3 a4 a5 a6 a7 a8 a9,
      where ext = sample_ext and h = 0 and s' = 0 and h' = 6]
  have run: "ChtRun sample_ext sample_cht 0 0 ?hs
      = (Ok, sample_cht\<lparr>c_lastHash := 6,
               c_trie := Some [PutUint64 4095 \<mapsto> Hash_Bytes 6 @ [1, 5]],
               c_triedb := [7], c_diskdb := StoreChtRoot Map.empty 0 6 7\<rparr>)"
    by (simp add: ChtRun_def ChtReset_def ChtProcess_def ChtCommit_def sample_ext_def
        sample_cht_def Let_def Uint64_def trie_Update_def EncodeToBytes_def be_min_pos be_min_0)
  have ok: "fst (ChtRun sample_ext sample_cht 0 0 ?hs) = Ok"
    by (simp add: run)
  have root: "GetChtRoot (c_diskdb (snd (ChtRun sample_ext sample_cht 0 0 ?hs))) 0 6 = 7"
    by (simp add: run Get_Store_ChtRoot)
  from t ok root have c1: "fst (ChtRun sample_ext ?c' 0 0 ?hs) = Ok"
    and c2: "GetChtRoot (c_diskdb (snd (ChtRun sample_ext ?c' 0 0 ?hs))) 0 6 = 7"
    and b1: "fst (BloomRun sample_ext sample_bloom 0 0 ?hs) = fst (BloomRun sample_ext ?b' 0 0 ?hs)"
    and b2: "b_diskdb (snd (BloomRun sample_ext sample_bloom 0 0 ?hs))
        = b_diskdb (snd (BloomRun sample_ext ?b' 0 0 ?hs))"
    by simp_all
  show ?thesis
    by (intro conjI a1 ne a8 d0 ix ok c1 c2 b1 b2)
qed

end
